theory Spec2Isabelle
  imports Complex_Main "HOL-Library.Multiset"
begin

section \<open>Values of the program\<close>

text \<open>
  The program is the React component \<open>App\<close> of \<open>src/App.tsx\<close>. Its numbers are
  JavaScript numbers: \<open>NaN\<close>, the two infinities and the finite values. A finite value is
  a real here, and an operation on finite operands is exact as long as the magnitude of
  its result is below \<open>2^1024 - 2^970\<close>, the bound from which a result rounds to an
  infinity; from there on the result is that infinity. The rounding of results below the
  bound and the sign of zero are not modelled. \<open>NaN\<close> arises where the source coerces
  \<open>undefined\<close> to a number, takes the sine or cosine of an infinity or the square root of
  a negative number, and propagates from there.

  A property that may be \<open>undefined\<close> at run time (the TypeScript types are erased) is an
  \<open>option\<close>, with \<open>None\<close> for \<open>undefined\<close>. A thrown exception is the left side of a sum.
\<close>

datatype number = NaN | Finite real | PosInfinity | NegInfinity

text \<open>
  The bound of overflow: halfway between the largest double and \<open>2^1024\<close>. The value of
  an operation whose exact result is the real \<open>x\<close>.
\<close>

definition overflow_bound :: real where
  "overflow_bound = 2 ^ 1024 - 2 ^ 970"

definition of_result :: "real \<Rightarrow> number" where
  "of_result x =
     (if overflow_bound \<le> x then PosInfinity
      else if x \<le> - overflow_bound then NegInfinity
      else Finite x)"

text \<open>An infinity multiplied by a finite number of sign \<open>s\<close>; by zero it is \<open>NaN\<close>.\<close>

definition signed_infinity :: "real \<Rightarrow> number" where
  "signed_infinity s = (if 0 < s then PosInfinity else if s < 0 then NegInfinity else NaN)"

fun number_negate :: "number \<Rightarrow> number" where
  "number_negate (Finite x) = Finite (- x)"
| "number_negate PosInfinity = NegInfinity"
| "number_negate NegInfinity = PosInfinity"
| "number_negate NaN = NaN"

fun number_plus :: "number \<Rightarrow> number \<Rightarrow> number" where
  "number_plus (Finite x) (Finite y) = of_result (x + y)"
| "number_plus (Finite x) PosInfinity = PosInfinity"
| "number_plus (Finite x) NegInfinity = NegInfinity"
| "number_plus PosInfinity (Finite y) = PosInfinity"
| "number_plus NegInfinity (Finite y) = NegInfinity"
| "number_plus PosInfinity PosInfinity = PosInfinity"
| "number_plus NegInfinity NegInfinity = NegInfinity"
| "number_plus _ _ = NaN"

definition number_minus :: "number \<Rightarrow> number \<Rightarrow> number" where
  "number_minus a b = number_plus a (number_negate b)"

fun number_times :: "number \<Rightarrow> number \<Rightarrow> number" where
  "number_times (Finite x) (Finite y) = of_result (x * y)"
| "number_times (Finite x) PosInfinity = signed_infinity x"
| "number_times (Finite x) NegInfinity = signed_infinity (- x)"
| "number_times PosInfinity (Finite y) = signed_infinity y"
| "number_times NegInfinity (Finite y) = signed_infinity (- y)"
| "number_times PosInfinity PosInfinity = PosInfinity"
| "number_times NegInfinity NegInfinity = PosInfinity"
| "number_times PosInfinity NegInfinity = NegInfinity"
| "number_times NegInfinity PosInfinity = NegInfinity"
| "number_times _ _ = NaN"

text \<open>Division by a positive literal \<open>k\<close>: the source divides by \<open>180\<close> and by \<open>2\<close> only.\<close>

fun number_divide :: "number \<Rightarrow> real \<Rightarrow> number" where
  "number_divide (Finite x) k = of_result (x / k)"
| "number_divide n k = n"

datatype exn = TypeError | SyntaxError | NetworkError

fun toNumber :: "real option \<Rightarrow> number" where
  "toNumber None = NaN"
| "toNumber (Some x) = Finite x"

text \<open>Truthiness of a possibly undefined number and of a possibly undefined string.\<close>

fun truthy_number :: "real option \<Rightarrow> bool" where
  "truthy_number None = False"
| "truthy_number (Some x) = (x \<noteq> 0)"

fun truthy_string :: "string option \<Rightarrow> bool" where
  "truthy_string None = False"
| "truthy_string (Some s) = (s \<noteq> [])"

section \<open>Data model\<close>

text \<open>The user's coordinate, \<open>{ lat, lng }\<close>, read from the position of the browser.\<close>

record latlng =
  lat :: real
  lng :: real

text \<open>
  An element of the response of the Overpass service: the numeric \<open>id\<close> that every
  element of the service carries, optional \<open>lat\<close>/\<open>lon\<close>, an optional \<open>center\<close> object
  with its own \<open>lat\<close>/\<open>lon\<close>, and an optional \<open>tags\<close> object mapping keys to strings.
\<close>

record center =
  center_lat :: "real option"
  center_lon :: "real option"

record element =
  el_id :: int
  el_lat :: "real option"
  el_lon :: "real option"
  el_center :: "center option"
  el_tags :: "(string \<rightharpoonup> string) option"

text \<open>The interface \<open>HospitalData\<close>; \<open>location\<close> holds what the callback computed.\<close>

record location =
  loc_lat :: "real option"
  loc_lng :: "real option"

record HospitalData =
  hospital_id :: string
  name :: "string option"
  distance :: number
  address :: string
  phone :: string
  emergency :: bool
  rating :: real
  specialties :: "string list"
  openNow :: bool
  location :: location

section \<open>Geo-math\<close>

text \<open>\<open>Math.sin\<close>, \<open>Math.cos\<close> and \<open>Math.sqrt\<close>.\<close>

fun Math_sin :: "number \<Rightarrow> number" where
  "Math_sin (Finite x) = Finite (sin x)"
| "Math_sin _ = NaN"

fun Math_cos :: "number \<Rightarrow> number" where
  "Math_cos (Finite x) = Finite (cos x)"
| "Math_cos _ = NaN"

fun Math_sqrt :: "number \<Rightarrow> number" where
  "Math_sqrt (Finite x) = (if x < 0 then NaN else Finite (sqrt x))"
| "Math_sqrt PosInfinity = PosInfinity"
| "Math_sqrt _ = NaN"

text \<open>The angle of the point \<open>(x, y)\<close> for finite \<open>y\<close> and \<open>x\<close>, and \<open>Math.atan2\<close>.\<close>

definition atan2_real :: "real \<Rightarrow> real \<Rightarrow> real" where
  "atan2_real y x =
     (if 0 < x then arctan (y / x)
      else if x < 0 then (if 0 \<le> y then arctan (y / x) + pi else arctan (y / x) - pi)
      else if 0 < y then pi / 2
      else if y < 0 then - (pi / 2)
      else 0)"

fun Math_atan2 :: "number \<Rightarrow> number \<Rightarrow> number" where
  "Math_atan2 (Finite y) (Finite x) = Finite (atan2_real y x)"
| "Math_atan2 (Finite y) PosInfinity = Finite 0"
| "Math_atan2 (Finite y) NegInfinity = Finite (if 0 \<le> y then pi else - pi)"
| "Math_atan2 PosInfinity (Finite x) = Finite (pi / 2)"
| "Math_atan2 NegInfinity (Finite x) = Finite (- (pi / 2))"
| "Math_atan2 PosInfinity PosInfinity = Finite (pi / 4)"
| "Math_atan2 PosInfinity NegInfinity = Finite (3 * pi / 4)"
| "Math_atan2 NegInfinity PosInfinity = Finite (- (pi / 4))"
| "Math_atan2 NegInfinity NegInfinity = Finite (- (3 * pi / 4))"
| "Math_atan2 _ _ = NaN"

definition toRad :: "number \<Rightarrow> number" where
  "toRad v = number_divide (number_times v (Finite pi)) 180"

definition calculateDistance :: "number \<Rightarrow> number \<Rightarrow> number \<Rightarrow> number \<Rightarrow> number" where
  "calculateDistance lat1 lon1 lat2 lon2 =
     (let R = Finite 6371;
          dLat = toRad (number_minus lat2 lat1);
          dLon = toRad (number_minus lon2 lon1);
          a = number_plus
                (number_times (Math_sin (number_divide dLat 2)) (Math_sin (number_divide dLat 2)))
                (number_times
                  (number_times
                    (number_times (Math_cos (toRad lat1)) (Math_cos (toRad lat2)))
                    (Math_sin (number_divide dLon 2)))
                  (Math_sin (number_divide dLon 2)));
          c = number_times (Finite 2)
                (Math_atan2 (Math_sqrt a) (Math_sqrt (number_minus (Finite 1) a)))
      in number_times R c)"

section \<open>The result pipeline\<close>

text \<open>
  \<open>parseFloat(distance.toFixed(1))\<close>. \<open>toFixed(1)\<close> prints the integer \<open>n\<close> with \<open>n / 10\<close>
  nearest to the magnitude, the larger one on a tie, under the sign of the number; from
  \<open>10^21\<close> on it prints the number itself; \<open>NaN\<close> and the infinities are printed and
  parsed as themselves.
\<close>

fun parseFloat_toFixed1 :: "number \<Rightarrow> number" where
  "parseFloat_toFixed1 (Finite x) =
     (if 10 ^ 21 \<le> \<bar>x\<bar> then Finite x
      else Finite (sgn x * real_of_int \<lfloor>10 * \<bar>x\<bar> + 1 / 2\<rfloor> / 10))"
| "parseFloat_toFixed1 n = n"

text \<open>\<open>element.id.toString()\<close> for an integer id: its decimal digits.\<close>

definition digit :: "nat \<Rightarrow> char" where
  "digit d = ''0123456789'' ! d"

fun nat_toString :: "nat \<Rightarrow> string" where
  "nat_toString n =
     (if n < 10 then [digit n]
      else nat_toString (n div 10) @ [digit (n mod 10)])"

definition int_toString :: "int \<Rightarrow> string" where
  "int_toString i = (if i < 0 then CHR ''-'' # nat_toString (nat (- i)) else nat_toString (nat i))"

text \<open>
  The value of the tag \<open>k\<close> of an element, as the statements read it: \<open>undefined\<close> when
  the element has no \<open>tags\<close> or its \<open>tags\<close> have no such key.
\<close>

definition tag :: "element \<Rightarrow> string \<Rightarrow> string option" where
  "tag e k = (case el_tags e of None \<Rightarrow> None | Some t \<Rightarrow> t k)"

text \<open>The first filter: \<open>element.tags && element.tags.name\<close>.\<close>

definition hasName :: "element \<Rightarrow> bool" where
  "hasName e = (case el_tags e of None \<Rightarrow> False | Some t \<Rightarrow> truthy_string (t ''name''))"

text \<open>
  The locals \<open>lat\<close> and \<open>lng\<close> of the callback:
  \<open>element.lat || (element.center && element.center.lat)\<close> and the same for \<open>lon\<close>.
\<close>

definition element_lat :: "element \<Rightarrow> real option" where
  "element_lat e =
     (if truthy_number (el_lat e) then el_lat e
      else (case el_center e of None \<Rightarrow> None | Some c \<Rightarrow> center_lat c))"

definition element_lng :: "element \<Rightarrow> real option" where
  "element_lng e =
     (if truthy_number (el_lon e) then el_lon e
      else (case el_center e of None \<Rightarrow> None | Some c \<Rightarrow> center_lon c))"

text \<open>\<open>s || d\<close> for a possibly undefined string \<open>s\<close> and a default \<open>d\<close>.\<close>

definition or_default :: "string option \<Rightarrow> string \<Rightarrow> string" where
  "or_default s d = (case s of None \<Rightarrow> d | Some v \<Rightarrow> if v = [] then d else v)"

text \<open>
  The callback of \<open>map\<close>. Reading \<open>element.tags.name\<close> throws a TypeError when
  \<open>element.tags\<close> is undefined.
\<close>

definition toHospitalData :: "latlng \<Rightarrow> element \<Rightarrow> exn + HospitalData" where
  "toHospitalData userLocation e =
     (let lat' = element_lat e;
          lng' = element_lng e;
          dist = calculateDistance (Finite (lat userLocation)) (Finite (lng userLocation))
                   (toNumber lat') (toNumber lng')
      in case el_tags e of
           None \<Rightarrow> Inl TypeError
         | Some t \<Rightarrow> Inr \<lparr>
             hospital_id = int_toString (el_id e),
             name = t ''name'',
             distance = parseFloat_toFixed1 dist,
             address = or_default (t ''addr:street'') ''Address not available'',
             phone = or_default (t ''phone'') ''N/A'',
             emergency = (t ''emergency'' = Some ''yes''),
             rating = 4.0,
             specialties = [''General Medicine''],
             openNow = True,
             location = \<lparr> loc_lat = lat', loc_lng = lng' \<rparr> \<rparr>)"

text \<open>\<open>Array.prototype.map\<close> with a callback that may throw: the first throw ends it.\<close>

fun map_throwing :: "('a \<Rightarrow> exn + 'b) \<Rightarrow> 'a list \<Rightarrow> exn + 'b list" where
  "map_throwing f [] = Inr []"
| "map_throwing f (x # xs) =
     (case f x of
        Inl ex \<Rightarrow> Inl ex
      | Inr y \<Rightarrow> (case map_throwing f xs of Inl ex \<Rightarrow> Inl ex | Inr ys \<Rightarrow> Inr (y # ys)))"

text \<open>The second filter: \<open>hospital.location.lat && hospital.location.lng\<close>.\<close>

definition hasLocation :: "HospitalData \<Rightarrow> bool" where
  "hasLocation h =
     (truthy_number (loc_lat (location h)) \<and> truthy_number (loc_lng (location h)))"

text \<open>The comparator \<open>a.distance - b.distance\<close>.\<close>

definition compareFn :: "HospitalData \<Rightarrow> HospitalData \<Rightarrow> number" where
  "compareFn a b = number_minus (distance a) (distance b)"

text \<open>
  \<open>Array.prototype.sort\<close> with a comparator. The language fixes the result where the
  comparator is a consistent comparison function for the elements: it never returns
  \<open>NaN\<close>, every element is equal to itself, equality is symmetric, and equality, less
  and greater are transitive. The result is then the stable sort, computed here by
  insertion: an element moves behind another only when the comparator is positive.
  Otherwise the order is implementation-defined: the result is a permutation of the
  elements about which nothing else is known.
\<close>

fun is_positive :: "number \<Rightarrow> bool" where
  "is_positive (Finite x) = (0 < x)"
| "is_positive PosInfinity = True"
| "is_positive _ = False"

fun is_negative :: "number \<Rightarrow> bool" where
  "is_negative (Finite x) = (x < 0)"
| "is_negative NegInfinity = True"
| "is_negative _ = False"

definition is_zero :: "number \<Rightarrow> bool" where
  "is_zero n = (n = Finite 0)"

definition consistent :: "('a \<Rightarrow> 'a \<Rightarrow> number) \<Rightarrow> 'a list \<Rightarrow> bool" where
  "consistent cmp xs =
     list_all (\<lambda>a. list_all (\<lambda>b. list_all (\<lambda>c.
         cmp a b \<noteq> NaN
       \<and> is_zero (cmp a a)
       \<and> (if is_zero (cmp a b) then is_zero (cmp b a) else True)
       \<and> (if is_zero (cmp a b) \<and> is_zero (cmp b c) then is_zero (cmp a c) else True)
       \<and> (if is_negative (cmp a b) \<and> is_negative (cmp b c) then is_negative (cmp a c) else True)
       \<and> (if is_positive (cmp a b) \<and> is_positive (cmp b c) then is_positive (cmp a c) else True))
       xs) xs) xs"

fun insert_sorted :: "('a \<Rightarrow> 'a \<Rightarrow> number) \<Rightarrow> 'a \<Rightarrow> 'a list \<Rightarrow> 'a list" where
  "insert_sorted cmp x [] = [x]"
| "insert_sorted cmp x (y # ys) =
     (if is_positive (cmp x y) then y # insert_sorted cmp x ys else x # y # ys)"

definition array_sort :: "('a \<Rightarrow> 'a \<Rightarrow> number) \<Rightarrow> 'a list \<Rightarrow> 'a list" where
  "array_sort cmp xs =
     (if consistent cmp xs then foldr (insert_sorted cmp) xs []
      else (SOME ys. mset ys = mset xs))"

text \<open>The value of \<open>nearbyHospitals\<close>, from \<open>data.elements\<close> and the user's coordinate.\<close>

definition nearbyHospitals :: "latlng \<Rightarrow> element list \<Rightarrow> exn + HospitalData list" where
  "nearbyHospitals userLocation elements =
     (case map_throwing (toHospitalData userLocation) (filter hasName elements) of
        Inl ex \<Rightarrow> Inl ex
      | Inr hs \<Rightarrow> Inr (take 10 (array_sort compareFn (filter hasLocation hs))))"

section \<open>The session\<close>

text \<open>
  The request sent to the Overpass service. The query text is determined by the radius
  and the user's coordinate, which stand for it here.
\<close>

record request =
  url :: string
  http_method :: string
  radius :: nat
  around :: latlng

text \<open>
  The parsed body \<open>data\<close> (\<open>elements = None\<close>: the body has no \<open>elements\<close>), and the
  response: its \<open>ok\<close> flag, which the program never reads, and what \<open>response.json()\<close> does.
\<close>

record data =
  elements :: "element list option"

record response =
  ok :: bool
  json :: "exn + data"

text \<open>
  The four state variables of \<open>App\<close> and, as \<open>requests\<close>, the log of the requests issued.
\<close>

record session =
  user_location :: "latlng option"
  hospitals :: "HospitalData list"
  loading :: bool
  error :: "string option"
  requests :: "request list"

definition initial :: session where
  "initial = \<lparr> user_location = None, hospitals = [], loading = True, error = None,
               requests = [] \<rparr>"

text \<open>
  The body of the \<open>try\<close> block of \<open>fetchNearbyHospitals\<close> after the request was sent:
  \<open>fetch\<close> rejects or resolves, \<open>response.json()\<close> rejects or resolves,
  \<open>data.elements.filter\<close> throws when there are no elements, then the pipeline runs.
\<close>

definition try_block :: "latlng \<Rightarrow> exn + response \<Rightarrow> exn + HospitalData list" where
  "try_block userLocation fetched =
     (case fetched of
        Inl ex \<Rightarrow> Inl ex
      | Inr resp \<Rightarrow>
          (case json resp of
             Inl ex \<Rightarrow> Inl ex
           | Inr d \<Rightarrow>
               (case elements d of
                  None \<Rightarrow> Inl TypeError
                | Some es \<Rightarrow> nearbyHospitals userLocation es)))"

text \<open>The one request of \<open>fetchNearbyHospitals\<close>: a POST of the query around the user.\<close>

definition overpass_request :: "latlng \<Rightarrow> request" where
  "overpass_request userLocation =
     \<lparr> url = ''https://overpass-api.de/api/interpreter'', http_method = ''POST'',
       radius = 20000, around = userLocation \<rparr>"

definition fetchNearbyHospitals ::
  "(request \<Rightarrow> exn + response) \<Rightarrow> latlng \<Rightarrow> session \<Rightarrow> session" where
  "fetchNearbyHospitals fetch userLocation s =
     (let req = overpass_request userLocation;
          s1 = s \<lparr> requests := requests s @ [req] \<rparr>
      in case try_block userLocation (fetch req) of
           Inr hs \<Rightarrow> s1 \<lparr> hospitals := hs \<rparr>
         | Inl ex \<Rightarrow>
             s1 \<lparr> error := Some ''Failed to fetch nearby hospitals. Please try again later.'' \<rparr>)"

text \<open>
  What the location capability does: it is missing from \<open>navigator\<close>, it calls the error
  callback, it calls the success callback with a position, or it never calls back.
\<close>

datatype geolocation = Unsupported | PositionError | Position real real | NoCallback

text \<open>The effect run once at startup.\<close>

definition useEffect ::
  "geolocation \<Rightarrow> (request \<Rightarrow> exn + response) \<Rightarrow> session \<Rightarrow> session" where
  "useEffect geo fetch s =
     (case geo of
        Position la lo \<Rightarrow>
          (let userLocation = \<lparr> lat = la, lng = lo \<rparr>;
               s1 = s \<lparr> user_location := Some userLocation \<rparr>;
               s2 = fetchNearbyHospitals fetch userLocation s1
           in s2 \<lparr> loading := False \<rparr>)
      | PositionError \<Rightarrow>
          s \<lparr> error := Some ''Please enable location services to find nearby hospitals'',
              loading := False \<rparr>
      | NoCallback \<Rightarrow> s
      | Unsupported \<Rightarrow>
          s \<lparr> error := Some ''Geolocation is not supported by your browser'',
              loading := False \<rparr>)"

text \<open>The three render states of \<open>App\<close>, in the order of its two tests.\<close>

datatype view = LoadingView | ErrorView string | ResultsView "HospitalData list"

definition render :: "session \<Rightarrow> view" where
  "render s =
     (if loading s then LoadingView
      else (case error s of
              None \<Rightarrow> ResultsView (hospitals s)
            | Some m \<Rightarrow> if m = [] then ResultsView (hospitals s) else ErrorView m))"

section \<open>Orders used in the statements\<close>

text \<open>
  \<open>number_le\<close> is \<open>\<le>\<close> on numbers, false as soon as one side is \<open>NaN\<close>, and
  \<open>by_distance\<close> compares two records by their \<open>distance\<close> with it.
\<close>

fun number_le :: "number \<Rightarrow> number \<Rightarrow> bool" where
  "number_le (Finite x) (Finite y) = (x \<le> y)"
| "number_le NegInfinity NegInfinity = True"
| "number_le NegInfinity (Finite y) = True"
| "number_le NegInfinity PosInfinity = True"
| "number_le (Finite x) PosInfinity = True"
| "number_le PosInfinity PosInfinity = True"
| "number_le _ _ = False"

definition by_distance :: "HospitalData \<Rightarrow> HospitalData \<Rightarrow> bool" where
  "by_distance a b = number_le (distance a) (distance b)"

section \<open>Notions used in the proofs\<close>

text \<open>
  The angle in radians and the haversine term as functions of reals, and the parts of
  \<open>calculateDistance\<close>: the sine of half an angle, the cosine of an angle, the term \<open>a\<close>
  from these four values, and the distance from the term.
\<close>

definition radians :: "real \<Rightarrow> real" where
  "radians v = v * pi / 180"

definition haversine_a :: "real \<Rightarrow> real \<Rightarrow> real \<Rightarrow> real \<Rightarrow> real" where
  "haversine_a lat1 lon1 lat2 lon2 =
     sin (radians (lat2 - lat1) / 2) * sin (radians (lat2 - lat1) / 2) +
     cos (radians lat1) * cos (radians lat2) *
     sin (radians (lon2 - lon1) / 2) * sin (radians (lon2 - lon1) / 2)"

definition half_sine :: "number \<Rightarrow> number" where
  "half_sine x = Math_sin (number_divide (toRad x) 2)"

definition cosine :: "number \<Rightarrow> number" where
  "cosine x = Math_cos (toRad x)"

definition haversine_term :: "number \<Rightarrow> number \<Rightarrow> number \<Rightarrow> number \<Rightarrow> number" where
  "haversine_term s c1 c2 t =
     number_plus (number_times s s) (number_times (number_times (number_times c1 c2) t) t)"

definition distance_of_term :: "number \<Rightarrow> number" where
  "distance_of_term a =
     number_times (Finite 6371)
       (number_times (Finite 2)
         (Math_atan2 (Math_sqrt a) (Math_sqrt (number_minus (Finite 1) a))))"

section \<open>Concrete inputs\<close>

text \<open>
  A user at latitude 10, longitude 20, and elements of a response: a named node at the
  user's own position with its record, a skeleton node without tags, a node without a
  name, a named node on the equator, a named element whose direct latitude is 0 and which
  has a center, a named way whose center lies on the equator, a named node whose street
  and phone tags are empty strings with its record, a named node a thousandth of a degree
  north of the user with its record, and a named node at latitude \<open>1e308\<close> with its
  record.
\<close>

definition sample_user :: latlng where
  "sample_user = \<lparr> lat = 10, lng = 20 \<rparr>"

definition sample_node :: element where
  "sample_node = \<lparr> el_id = 1, el_lat = Some 10, el_lon = Some 20, el_center = None,
     el_tags = Some [''name'' \<mapsto> ''City Hospital'', ''emergency'' \<mapsto> ''yes'',
                     ''addr:street'' \<mapsto> ''Main Street''] \<rparr>"

definition sample_hospital :: HospitalData where
  "sample_hospital = \<lparr> hospital_id = ''1'', name = Some ''City Hospital'', distance = Finite 0,
     address = ''Main Street'', phone = ''N/A'', emergency = True, rating = 4,
     specialties = [''General Medicine''], openNow = True,
     location = \<lparr> loc_lat = Some 10, loc_lng = Some 20 \<rparr> \<rparr>"

definition sample_untagged :: element where
  "sample_untagged = \<lparr> el_id = 2, el_lat = Some 10, el_lon = Some 20, el_center = None,
     el_tags = None \<rparr>"

definition sample_unnamed :: element where
  "sample_unnamed = \<lparr> el_id = 3, el_lat = Some 10, el_lon = Some 20, el_center = None,
     el_tags = Some [''amenity'' \<mapsto> ''hospital''] \<rparr>"

definition sample_unnamed_record :: HospitalData where
  "sample_unnamed_record = \<lparr> hospital_id = ''3'', name = None, distance = Finite 0,
     address = ''Address not available'', phone = ''N/A'', emergency = False, rating = 4,
     specialties = [''General Medicine''], openNow = True,
     location = \<lparr> loc_lat = Some 10, loc_lng = Some 20 \<rparr> \<rparr>"

definition sample_equator :: element where
  "sample_equator = \<lparr> el_id = 4, el_lat = Some 0, el_lon = Some 20, el_center = None,
     el_tags = Some [''name'' \<mapsto> ''Equator Clinic''] \<rparr>"

definition sample_mixed :: element where
  "sample_mixed = \<lparr> el_id = 5, el_lat = Some 0, el_lon = Some 20,
     el_center = Some \<lparr> center_lat = Some 10, center_lon = Some 30 \<rparr>,
     el_tags = Some [''name'' \<mapsto> ''Meridian Hospital''] \<rparr>"


definition sample_blank :: element where
  "sample_blank = \<lparr> el_id = 6, el_lat = Some 10, el_lon = Some 20, el_center = None,
     el_tags = Some [''name'' \<mapsto> ''Riverside Hospital'', ''addr:street'' \<mapsto> '''',
                     ''phone'' \<mapsto> ''''] \<rparr>"

definition sample_blank_hospital :: HospitalData where
  "sample_blank_hospital = \<lparr> hospital_id = ''6'', name = Some ''Riverside Hospital'',
     distance = Finite 0, address = ''Address not available'', phone = ''N/A'',
     emergency = False, rating = 4, specialties = [''General Medicine''], openNow = True,
     location = \<lparr> loc_lat = Some 10, loc_lng = Some 20 \<rparr> \<rparr>"

definition sample_near :: element where
  "sample_near = \<lparr> el_id = 8, el_lat = Some (10001 / 1000), el_lon = Some 20, el_center = None,
     el_tags = Some [''name'' \<mapsto> ''Hill Clinic''] \<rparr>"

definition sample_near_record :: HospitalData where
  "sample_near_record = \<lparr> hospital_id = ''8'', name = Some ''Hill Clinic'',
     distance = Finite (1 / 10), address = ''Address not available'', phone = ''N/A'',
     emergency = False, rating = 4, specialties = [''General Medicine''], openNow = True,
     location = \<lparr> loc_lat = Some (10001 / 1000), loc_lng = Some 20 \<rparr> \<rparr>"

definition sample_far :: element where
  "sample_far = \<lparr> el_id = 9, el_lat = Some (10 ^ 308), el_lon = Some 20, el_center = None,
     el_tags = Some [''name'' \<mapsto> ''Far Hospital''] \<rparr>"

definition sample_far_record :: HospitalData where
  "sample_far_record = \<lparr> hospital_id = ''9'', name = Some ''Far Hospital'',
     distance = NaN, address = ''Address not available'', phone = ''N/A'',
     emergency = False, rating = 4, specialties = [''General Medicine''], openNow = True,
     location = \<lparr> loc_lat = Some (10 ^ 308), loc_lng = Some 20 \<rparr> \<rparr>"

text \<open>A response with a non-success status whose body is a well-formed result.\<close>

definition sample_error_response :: response where
  "sample_error_response = \<lparr> ok = False, json = Inr \<lparr> elements = Some [sample_node] \<rparr> \<rparr>"

section \<open>Arithmetic of numbers\<close>

lemma overflow_bound_facts:
  "0 < overflow_bound" "25484 < overflow_bound" "overflow_bound \<le> 10 ^ 308 * 2"
  by (simp_all add: overflow_bound_def)

lemma of_result_Finite: "\<bar>x\<bar> < overflow_bound \<Longrightarrow> of_result x = Finite x"
  by (simp add: of_result_def abs_less_iff)

lemma of_result_Finite_iff: "of_result x = Finite y \<longleftrightarrow> \<bar>x\<bar> < overflow_bound \<and> y = x"
  by (auto simp: of_result_def abs_less_iff)

lemma of_result_not_NaN: "of_result x \<noteq> NaN"
  by (simp add: of_result_def)

lemma of_result_negate: "of_result (- x) = number_negate (of_result x)"
proof -
  have "0 < overflow_bound" by (rule overflow_bound_facts)
  then show ?thesis by (auto simp: of_result_def)
qed

lemma sign_of_result:
  "is_positive (of_result x) = (0 < x)" "is_negative (of_result x) = (x < 0)"
  "is_zero (of_result x) = (x = 0)"
proof -
  have b: "0 < overflow_bound" by (rule overflow_bound_facts)
  show "is_positive (of_result x) = (0 < x)" using b by (auto simp: of_result_def)
  show "is_negative (of_result x) = (x < 0)" using b by (auto simp: of_result_def)
  show "is_zero (of_result x) = (x = 0)" using b by (auto simp: of_result_def is_zero_def)
qed

lemma pi_bounds: "2 \<le> pi" "pi < 4" "1 < pi"
  using pi_ge_two pi_less_4 by simp_all

lemma abs_le_abs_times_pi: "\<bar>x\<bar> \<le> \<bar>x * pi\<bar>"
proof -
  have "\<bar>x\<bar> * 1 \<le> \<bar>x\<bar> * pi" using pi_bounds(3) by (intro mult_left_mono) simp_all
  then show ?thesis by (simp add: abs_mult)
qed

lemma toRad_Finite:
  "toRad (Finite v) = (if \<bar>v * pi\<bar> < overflow_bound then Finite (radians v)
                       else if 0 < v then PosInfinity else NegInfinity)"
proof (cases "\<bar>v * pi\<bar> < overflow_bound")
  case True
  have "\<bar>v * pi / 180\<bar> \<le> \<bar>v * pi\<bar>" by simp
  then have "\<bar>v * pi / 180\<bar> < overflow_bound" using True by linarith
  then show ?thesis using True by (simp add: toRad_def of_result_Finite radians_def)
next
  case False
  have p: "0 < pi" by simp
  show ?thesis
  proof (cases "0 < v")
    case True
    then have "0 < v * pi" using p by simp
    then have "overflow_bound \<le> v * pi" using False by simp
    then show ?thesis using False True by (simp add: toRad_def of_result_def)
  next
    case neg: False
    then have "v * pi \<le> 0" using p by (simp add: mult_le_0_iff)
    then have "v * pi \<le> - overflow_bound" using False by (simp add: abs_if split: if_splits)
    moreover have "\<not> overflow_bound \<le> v * pi"
      using \<open>v * pi \<le> 0\<close> overflow_bound_facts(1) by linarith
    ultimately show ?thesis using False neg by (simp add: toRad_def of_result_def)
  qed
qed

lemma toRad_nonfinite:
  "toRad NaN = NaN" "toRad PosInfinity = PosInfinity" "toRad NegInfinity = NegInfinity"
  by (simp_all add: toRad_def signed_infinity_def)

lemma half_sine_Finite:
  "half_sine (Finite v) = (if \<bar>v * pi\<bar> < overflow_bound then Finite (sin (radians v / 2)) else NaN)"
proof (cases "\<bar>v * pi\<bar> < overflow_bound")
  case True
  have "\<bar>radians v / 2\<bar> \<le> \<bar>v * pi\<bar>" by (simp add: radians_def)
  then have "\<bar>radians v / 2\<bar> < overflow_bound" using True by linarith
  then show ?thesis using True by (simp add: half_sine_def toRad_Finite of_result_Finite)
next
  case False
  then show ?thesis by (simp add: half_sine_def toRad_Finite)
qed

lemma half_sine_nonfinite:
  "half_sine NaN = NaN" "half_sine PosInfinity = NaN" "half_sine NegInfinity = NaN"
  by (simp_all add: half_sine_def toRad_nonfinite)

lemma cosine_Finite:
  "cosine (Finite v) = (if \<bar>v * pi\<bar> < overflow_bound then Finite (cos (radians v)) else NaN)"
  by (simp add: cosine_def toRad_Finite)

lemma cosine_nonfinite:
  "cosine NaN = NaN" "cosine PosInfinity = NaN" "cosine NegInfinity = NaN"
  by (simp_all add: cosine_def toRad_nonfinite)

lemma half_sine_of_result:
  "half_sine (of_result z) = (if \<bar>z * pi\<bar> < overflow_bound then Finite (sin (radians z / 2)) else NaN)"
proof (cases "\<bar>z\<bar> < overflow_bound")
  case True
  then show ?thesis by (simp add: of_result_Finite half_sine_Finite)
next
  case False
  then have "\<not> \<bar>z * pi\<bar> < overflow_bound" using abs_le_abs_times_pi [of z] by linarith
  moreover have "of_result z = PosInfinity \<or> of_result z = NegInfinity"
    using False by (auto simp: of_result_def)
  ultimately show ?thesis by (auto simp: half_sine_nonfinite)
qed

lemma number_minus_Finite: "number_minus (Finite x) (Finite y) = of_result (x - y)"
  by (simp add: number_minus_def)

lemma signed_infinity_minus: "signed_infinity (- s) = number_negate (signed_infinity s)"
  by (simp add: signed_infinity_def)

lemma number_times_commute: "number_times a b = number_times b a"
  by (cases a; cases b) (simp_all add: mult.commute)

lemma number_negate_twice: "number_negate (number_negate a) = a"
  by (cases a) simp_all

lemma number_times_negate_right:
  "number_times a (number_negate b) = number_negate (number_times a b)"
  by (cases a; cases b)
     (simp_all add: of_result_negate signed_infinity_minus number_negate_twice)

lemma number_times_negate_both:
  "number_times (number_negate a) (number_negate a) = number_times a a"
  by (cases a) simp_all

lemma number_times_twice_negate:
  "number_times (number_times p (number_negate t)) (number_negate t) =
     number_times (number_times p t) t"
proof -
  have "number_times (number_times p (number_negate t)) (number_negate t) =
        number_negate (number_times (number_negate (number_times p t)) t)"
    by (simp only: number_times_negate_right)
  also have "\<dots> = number_negate (number_times t (number_negate (number_times p t)))"
    by (simp only: number_times_commute)
  also have "\<dots> = number_negate (number_negate (number_times t (number_times p t)))"
    by (simp only: number_times_negate_right)
  also have "\<dots> = number_times t (number_times p t)"
    by (rule number_negate_twice)
  also have "\<dots> = number_times (number_times p t) t"
    by (rule number_times_commute)
  finally show ?thesis .
qed

section \<open>The great-circle distance\<close>

text \<open>
  \<open>calculateDistance\<close> is the distance of the haversine term of four sines and cosines.
  It is symmetric, and it is \<open>NaN\<close> or a number between 0 and \<open>6371 * pi\<close>, whatever the
  term is. Where no conversion to radians overflows, the term is a convex combination of
  two numbers of \<open>[0, 1]\<close> and the distance is a number.
\<close>

lemma calculateDistance_unfold:
  "calculateDistance lat1 lon1 lat2 lon2 =
     distance_of_term
       (haversine_term (half_sine (number_minus lat2 lat1)) (cosine lat1) (cosine lat2)
          (half_sine (number_minus lon2 lon1)))"
  by (simp add: calculateDistance_def distance_of_term_def haversine_term_def half_sine_def
      cosine_def Let_def)

lemma number_minus_swap: "number_minus a b = number_negate (number_minus b a)"
  by (cases a; cases b) (simp_all add: number_minus_def of_result_negate [symmetric])

lemma half_sine_negate: "half_sine (number_negate x) = number_negate (half_sine x)"
proof (cases x)
  case (Finite v)
  have "radians (- v) / 2 = - (radians v / 2)" by (simp add: radians_def)
  then have "sin (radians (- v) / 2) = - sin (radians v / 2)" by (simp only: sin_minus)
  then show ?thesis using Finite by (simp add: half_sine_Finite)
qed (simp_all add: half_sine_nonfinite)

lemma haversine_term_sym:
  "haversine_term (half_sine (number_minus lat2 lat1)) (cosine lat1) (cosine lat2)
      (half_sine (number_minus lon2 lon1)) =
   haversine_term (half_sine (number_minus lat1 lat2)) (cosine lat2) (cosine lat1)
      (half_sine (number_minus lon1 lon2))"
proof -
  have s: "half_sine (number_minus lat2 lat1) = number_negate (half_sine (number_minus lat1 lat2))"
    using number_minus_swap [of lat2 lat1] by (simp only: half_sine_negate)
  have t: "half_sine (number_minus lon2 lon1) = number_negate (half_sine (number_minus lon1 lon2))"
    using number_minus_swap [of lon2 lon1] by (simp only: half_sine_negate)
  show ?thesis
    unfolding haversine_term_def s t number_times_negate_both number_times_twice_negate
    by (simp only: number_times_commute [of "cosine lat1" "cosine lat2"])
qed

lemma calculateDistance_sym:
  "calculateDistance lat1 lon1 lat2 lon2 = calculateDistance lat2 lon2 lat1 lon1"
  by (simp only: calculateDistance_unfold haversine_term_sym)

lemma atan2_real_nonneg:
  assumes "0 \<le> y" "0 \<le> x"
  shows "0 \<le> atan2_real y x \<and> atan2_real y x \<le> pi / 2"
proof (cases "0 < x")
  case True
  then have "0 \<le> y / x" using assms by simp
  then have "0 \<le> arctan (y / x)" by simp
  moreover have "arctan (y / x) < pi / 2" by (rule arctan_ubound)
  ultimately show ?thesis using True by (simp add: atan2_real_def)
next
  case False
  then have "x = 0" using assms by simp
  then show ?thesis using assms by (simp add: atan2_real_def)
qed

lemma distance_of_term_Finite:
  "distance_of_term (Finite a) =
     (if 0 \<le> a \<and> a \<le> 1 then Finite (6371 * (2 * atan2_real (sqrt a) (sqrt (1 - a)))) else NaN)"
proof (cases "0 \<le> a \<and> a \<le> 1")
  case True
  define t where "t = atan2_real (sqrt a) (sqrt (1 - a))"
  have t: "0 \<le> t" "t \<le> pi / 2"
    using atan2_real_nonneg [of "sqrt a" "sqrt (1 - a)"] True by (simp_all add: t_def)
  have "t < 2" using t(2) pi_bounds(2) by linarith
  then have b2: "\<bar>2 * t\<bar> < overflow_bound"
    using t(1) overflow_bound_facts(2) by simp
  have "\<bar>6371 * (2 * t)\<bar> < 6371 * 4" using t(1) \<open>t < 2\<close> by simp
  also have "\<dots> < overflow_bound" using overflow_bound_facts(2) by simp
  finally have b3: "\<bar>6371 * (2 * t)\<bar> < overflow_bound" .
  have b1: "\<bar>1 - a\<bar> < overflow_bound"
  proof -
    have "\<bar>1 - a\<bar> \<le> 1" using True by simp
    also have "\<dots> < overflow_bound" using overflow_bound_facts(2) by simp
    finally show ?thesis .
  qed
  have m: "number_minus (Finite 1) (Finite a) = Finite (1 - a)"
    using b1 by (simp add: number_minus_Finite of_result_Finite)
  have "distance_of_term (Finite a) = Finite (6371 * (2 * t))"
    using True b2 b3
    by (simp add: distance_of_term_def m of_result_Finite t_def [symmetric])
  then show ?thesis using True by (simp add: t_def)
next
  case False
  show ?thesis
  proof (cases "a < 0")
    case True
    then show ?thesis using False by (simp add: distance_of_term_def)
  next
    case nonneg: False
    then have "1 < a" using False by simp
    then have "1 - a < 0" by simp
    have "number_minus (Finite 1) (Finite a) = Finite (1 - a)
        \<or> number_minus (Finite 1) (Finite a) = NegInfinity"
      using \<open>1 - a < 0\<close> overflow_bound_facts(1)
      by (auto simp: number_minus_Finite of_result_def)
    then have "Math_sqrt (number_minus (Finite 1) (Finite a)) = NaN"
      using \<open>1 - a < 0\<close> by auto
    then show ?thesis using False nonneg by (simp add: distance_of_term_def)
  qed
qed

lemma distance_of_term_nonfinite:
  "distance_of_term NaN = NaN" "distance_of_term PosInfinity = NaN"
  "distance_of_term NegInfinity = NaN"
  by (simp_all add: distance_of_term_def number_minus_def)

lemma distance_of_term_range:
  "distance_of_term a = NaN \<or> (\<exists>d. distance_of_term a = Finite d \<and> 0 \<le> d \<and> d \<le> 6371 * pi)"
proof (cases a)
  case (Finite x)
  show ?thesis
  proof (cases "0 \<le> x \<and> x \<le> 1")
    case True
    have "0 \<le> atan2_real (sqrt x) (sqrt (1 - x))" "atan2_real (sqrt x) (sqrt (1 - x)) \<le> pi / 2"
      using atan2_real_nonneg [of "sqrt x" "sqrt (1 - x)"] True by simp_all
    then show ?thesis using Finite True by (simp add: distance_of_term_Finite)
  next
    case False
    then have "distance_of_term (Finite x) = NaN" by (simp only: distance_of_term_Finite if_False)
    then show ?thesis using Finite by simp
  qed
qed (simp_all add: distance_of_term_nonfinite)

lemma calculateDistance_range:
  "calculateDistance lat1 lon1 lat2 lon2 = NaN \<or>
   (\<exists>d. calculateDistance lat1 lon1 lat2 lon2 = Finite d \<and> 0 \<le> d \<and> d \<le> 6371 * pi)"
  unfolding calculateDistance_unfold by (rule distance_of_term_range)

lemma sin_half_sq: "sin ((x::real) / 2) * sin (x / 2) = (1 - cos x) / 2"
  using cos_double_sin [of "x / 2"] by (simp add: power2_eq_square)

lemma radians_diff: "radians (x - y) = radians x - radians y"
  by (simp add: radians_def algebra_simps diff_divide_distrib)

lemma haversine_a_convex:
  "haversine_a lat1 lon1 lat2 lon2 =
     (1 - (sin (radians (lon2 - lon1) / 2))\<^sup>2) * ((1 - cos (radians lat2 - radians lat1)) / 2)
     + (sin (radians (lon2 - lon1) / 2))\<^sup>2 * ((1 + cos (radians lat1 + radians lat2)) / 2)"
proof -
  define s where "s = sin (radians (lon2 - lon1) / 2)"
  have "haversine_a lat1 lon1 lat2 lon2 =
      sin (radians (lat2 - lat1) / 2) * sin (radians (lat2 - lat1) / 2) +
      cos (radians lat1) * cos (radians lat2) * s * s"
    by (simp add: haversine_a_def s_def)
  also have "\<dots> = (1 - cos (radians lat2 - radians lat1)) / 2 +
      cos (radians lat1) * cos (radians lat2) * s\<^sup>2"
    by (simp only: sin_half_sq radians_diff power2_eq_square mult.assoc)
  also have "\<dots> = (1 - s\<^sup>2) * ((1 - cos (radians lat2 - radians lat1)) / 2)
     + s\<^sup>2 * ((1 + cos (radians lat1 + radians lat2)) / 2)"
    by (simp add: cos_add cos_diff field_simps)
  finally show ?thesis by (simp only: s_def)
qed

lemma haversine_a_range:
  "0 \<le> haversine_a lat1 lon1 lat2 lon2 \<and> haversine_a lat1 lon1 lat2 lon2 \<le> 1"
proof -
  define s where "s = (sin (radians (lon2 - lon1) / 2))\<^sup>2"
  define p where "p = (1 - cos (radians lat2 - radians lat1)) / 2"
  define q where "q = (1 + cos (radians lat1 + radians lat2)) / 2"
  have s: "0 \<le> s" "s \<le> 1" by (simp_all add: s_def abs_square_le_1)
  have "0 \<le> p \<and> p \<le> 1"
    using cos_ge_minus_one [of "radians lat2 - radians lat1"]
      cos_le_one [of "radians lat2 - radians lat1"]
    unfolding p_def by (intro conjI; simp; linarith)
  then have p: "0 \<le> p" "p \<le> 1" by simp_all
  have "0 \<le> q \<and> q \<le> 1"
    using cos_ge_minus_one [of "radians lat1 + radians lat2"]
      cos_le_one [of "radians lat1 + radians lat2"]
    unfolding q_def by (intro conjI; simp; linarith)
  then have q: "0 \<le> q" "q \<le> 1" by simp_all
  have a: "haversine_a lat1 lon1 lat2 lon2 = (1 - s) * p + s * q"
    unfolding s_def p_def q_def by (rule haversine_a_convex)
  have "0 \<le> (1 - s) * p + s * q" using s p q by simp
  moreover have "(1 - s) * p + s * q \<le> (1 - s) * 1 + s * 1"
    using s p q by (intro add_mono mult_left_mono) simp_all
  ultimately show ?thesis using a by simp
qed

lemma unit_bound: "\<bar>x\<bar> \<le> 4 \<Longrightarrow> \<bar>x::real\<bar> < overflow_bound"
proof -
  assume "\<bar>x\<bar> \<le> 4"
  also have "4 < overflow_bound" using overflow_bound_facts(2) by simp
  finally show ?thesis .
qed

lemma haversine_term_Finite:
  assumes "\<bar>x\<bar> \<le> 1" "\<bar>y1\<bar> \<le> 1" "\<bar>y2\<bar> \<le> 1" "\<bar>z\<bar> \<le> 1"
  shows "haversine_term (Finite x) (Finite y1) (Finite y2) (Finite z) =
           Finite (x * x + y1 * y2 * z * z)"
proof -
  have "x\<^sup>2 \<le> 1" using assms(1) by (simp add: abs_square_le_1)
  then have xx: "\<bar>x * x\<bar> \<le> 1" by (simp add: power2_eq_square)
  have yy: "\<bar>y1 * y2\<bar> \<le> 1" using assms(2,3) by (simp add: abs_mult mult_le_one)
  have yz: "\<bar>y1 * y2 * z\<bar> \<le> 1" using yy assms(4) by (simp add: abs_mult mult_le_one)
  have yzz: "\<bar>y1 * y2 * z * z\<bar> \<le> 1"
    using yz assms(4) abs_mult [of "y1 * y2 * z" z] mult_le_one [of "\<bar>y1 * y2 * z\<bar>" "\<bar>z\<bar>"]
    by simp
  have sum: "\<bar>x * x + y1 * y2 * z * z\<bar> \<le> 4" using xx yzz by linarith
  have "\<bar>x * x\<bar> < overflow_bound" using xx by (intro unit_bound) simp
  then have "number_times (Finite x) (Finite x) = Finite (x * x)"
    by (simp only: number_times.simps of_result_Finite)
  moreover have "number_times (Finite y1) (Finite y2) = Finite (y1 * y2)"
    using yy by (simp add: of_result_Finite unit_bound)
  moreover have "number_times (Finite (y1 * y2)) (Finite z) = Finite (y1 * y2 * z)"
    using yz by (simp add: of_result_Finite unit_bound)
  moreover have "number_times (Finite (y1 * y2 * z)) (Finite z) = Finite (y1 * y2 * z * z)"
    using yzz by (simp add: of_result_Finite unit_bound)
  moreover have "number_plus (Finite (x * x)) (Finite (y1 * y2 * z * z)) =
      Finite (x * x + y1 * y2 * z * z)"
    using sum by (simp add: of_result_Finite unit_bound)
  ultimately show ?thesis by (simp only: haversine_term_def)
qed

lemma calculateDistance_Finite:
  assumes "\<bar>lat1 * pi\<bar> < overflow_bound" "\<bar>lat2 * pi\<bar> < overflow_bound"
    "\<bar>(lat2 - lat1) * pi\<bar> < overflow_bound" "\<bar>(lon2 - lon1) * pi\<bar> < overflow_bound"
  shows "calculateDistance (Finite lat1) (Finite lon1) (Finite lat2) (Finite lon2) =
           Finite (6371 * (2 * atan2_real (sqrt (haversine_a lat1 lon1 lat2 lon2))
                                            (sqrt (1 - haversine_a lat1 lon1 lat2 lon2))))"
proof -
  have s: "half_sine (number_minus (Finite lat2) (Finite lat1)) =
             Finite (sin (radians (lat2 - lat1) / 2))"
    using assms(3) by (simp add: number_minus_Finite half_sine_of_result)
  have t: "half_sine (number_minus (Finite lon2) (Finite lon1)) =
             Finite (sin (radians (lon2 - lon1) / 2))"
    using assms(4) by (simp add: number_minus_Finite half_sine_of_result)
  have c: "cosine (Finite lat1) = Finite (cos (radians lat1))"
    "cosine (Finite lat2) = Finite (cos (radians lat2))"
    using assms(1,2) by (simp_all add: cosine_Finite)
  have "haversine_term (Finite (sin (radians (lat2 - lat1) / 2))) (Finite (cos (radians lat1)))
          (Finite (cos (radians lat2))) (Finite (sin (radians (lon2 - lon1) / 2))) =
        Finite (haversine_a lat1 lon1 lat2 lon2)"
    unfolding haversine_a_def by (rule haversine_term_Finite) simp_all
  then have "calculateDistance (Finite lat1) (Finite lon1) (Finite lat2) (Finite lon2) =
      distance_of_term (Finite (haversine_a lat1 lon1 lat2 lon2))"
    by (simp only: calculateDistance_unfold s t c)
  then show ?thesis
    using haversine_a_range [of lat1 lon1 lat2 lon2] by (simp add: distance_of_term_Finite)
qed

lemma calculateDistance_same:
  assumes "\<bar>la * pi\<bar> < overflow_bound"
  shows "calculateDistance (Finite la) (Finite lo) (Finite la) (Finite lo) = Finite 0"
proof -
  have "haversine_a la lo la lo = 0" by (simp add: haversine_a_def radians_def)
  then show ?thesis
    using calculateDistance_Finite [of la la lo lo] assms by (simp add: atan2_real_def)
qed

lemma moderate_no_overflow: "\<bar>x\<bar> \<le> 1000 \<Longrightarrow> \<bar>x * pi\<bar> < overflow_bound"
proof -
  assume a: "\<bar>x\<bar> \<le> 1000"
  have "\<bar>x * pi\<bar> = \<bar>x\<bar> * pi" by (simp add: abs_mult)
  also have "\<dots> \<le> 1000 * 4"
    using a pi_bounds(2) by (intro mult_mono) simp_all
  also have "\<dots> < overflow_bound" using overflow_bound_facts(2) by simp
  finally show ?thesis .
qed

lemma huge_overflow: "overflow_bound \<le> \<bar>(10::real) ^ 308 * pi\<bar>"
proof -
  have "overflow_bound \<le> 10 ^ 308 * 2" by (rule overflow_bound_facts)
  also have "\<dots> \<le> 10 ^ 308 * pi" using pi_bounds(1) by (intro mult_left_mono) simp_all
  finally show ?thesis by simp
qed

lemma calculateDistance_huge:
  "calculateDistance (Finite (10 ^ 308)) (Finite 0) (Finite (10 ^ 308)) (Finite 0) = NaN"
proof -
  have "cosine (Finite (10 ^ 308)) = NaN"
    using huge_overflow by (simp only: cosine_Finite) simp
  then show ?thesis
    by (simp add: calculateDistance_unfold haversine_term_def number_minus_Finite
        distance_of_term_nonfinite)
qed

section \<open>Rounding to one decimal\<close>

lemma parseFloat_toFixed1_small:
  assumes "0 \<le> x" "x < 10 ^ 21"
  shows "parseFloat_toFixed1 (Finite x) = Finite (real_of_int \<lfloor>10 * x + 1 / 2\<rfloor> / 10)"
proof (cases "x = 0")
  case True
  then show ?thesis by simp
next
  case False
  then have "0 < x" using assms by simp
  then show ?thesis using assms by simp
qed

lemma parseFloat_toFixed1_round:
  assumes "0 \<le> x" "x < 10 ^ 21"
  shows "\<exists>r. parseFloat_toFixed1 (Finite x) = Finite r \<and> 0 \<le> r \<and> (\<exists>n::int. r = real_of_int n / 10)
               \<and> \<bar>r - x\<bar> \<le> 1 / 20"
proof -
  define n where "n = \<lfloor>10 * x + 1 / 2\<rfloor>"
  have lo: "real_of_int n \<le> 10 * x + 1 / 2" unfolding n_def by (rule of_int_floor_le)
  have hi: "10 * x + 1 / 2 < real_of_int n + 1" unfolding n_def by linarith
  have "0 \<le> n" unfolding n_def using assms by simp
  then have nn: "0 \<le> real_of_int n / 10" by simp
  have "real_of_int n / 10 - x \<le> 1 / 20" "x - real_of_int n / 10 \<le> 1 / 20"
    using lo hi by linarith+
  then have "\<bar>real_of_int n / 10 - x\<bar> \<le> 1 / 20" by linarith
  then show ?thesis using parseFloat_toFixed1_small [OF assms] nn unfolding n_def by blast
qed

lemma pi_small: "6371 * pi < 10 ^ 21"
proof -
  have "6371 * pi < 6371 * 4" using pi_bounds(2) by simp
  also have "\<dots> < (10::real) ^ 21" by simp
  finally show ?thesis .
qed

lemma parseFloat_toFixed1_range:
  assumes "n = NaN \<or> (\<exists>d. n = Finite d \<and> 0 \<le> d \<and> d \<le> 6371 * pi)"
  shows "parseFloat_toFixed1 n = NaN \<or>
         (\<exists>d r. n = Finite d \<and> parseFloat_toFixed1 n = Finite r \<and> 0 \<le> r
                \<and> (\<exists>k::int. r = real_of_int k / 10) \<and> \<bar>r - d\<bar> \<le> 1 / 20)"
  using assms
proof
  assume "n = NaN"
  then show ?thesis by simp
next
  assume "\<exists>d. n = Finite d \<and> 0 \<le> d \<and> d \<le> 6371 * pi"
  then obtain d where d: "n = Finite d" "0 \<le> d" "d \<le> 6371 * pi" by blast
  then have "d < 10 ^ 21" using pi_small by linarith
  then show ?thesis using parseFloat_toFixed1_round [OF d(2)] d(1) by blast
qed

section \<open>The callback of map does not throw\<close>

lemma map_throwing_Inr:
  "(\<And>x. x \<in> set xs \<Longrightarrow> \<exists>y. f x = Inr y) \<Longrightarrow>
     map_throwing f xs = Inr (map (\<lambda>x. projr (f x)) xs)"
proof (induction xs)
  case Nil
  show ?case by simp
next
  case (Cons x xs)
  obtain y where y: "f x = Inr y" using Cons.prems [of x] by auto
  have "map_throwing f xs = Inr (map (\<lambda>x. projr (f x)) xs)"
    by (rule Cons.IH) (simp add: Cons.prems)
  then show ?case using y by simp
qed

lemma truthy_string_iff: "truthy_string v \<longleftrightarrow> (\<exists>s. v = Some s \<and> s \<noteq> [])"
  by (cases v) auto

lemma toHospitalData_hasName: "hasName e \<Longrightarrow> \<exists>h. toHospitalData u e = Inr h"
  by (cases "el_tags e") (simp_all add: hasName_def toHospitalData_def Let_def)

lemma nearbyHospitals_eq:
  "nearbyHospitals u es =
     Inr (take 10 (array_sort compareFn (filter hasLocation
            (map (\<lambda>e. projr (toHospitalData u e)) (filter hasName es)))))"
proof -
  have "map_throwing (toHospitalData u) (filter hasName es) =
          Inr (map (\<lambda>e. projr (toHospitalData u e)) (filter hasName es))"
    by (rule map_throwing_Inr) (simp add: toHospitalData_hasName)
  then show ?thesis by (simp add: nearbyHospitals_def)
qed

section \<open>Sorting\<close>

lemma mset_insert_sorted: "mset (insert_sorted cmp x xs) = add_mset x (mset xs)"
  by (induction xs) auto

lemma mset_insertion: "mset (foldr (insert_sorted cmp) xs []) = mset xs"
  by (induction xs) (simp_all add: mset_insert_sorted)

lemma mset_array_sort: "mset (array_sort cmp xs) = mset xs"
proof (cases "consistent cmp xs")
  case True
  then show ?thesis by (simp add: array_sort_def mset_insertion)
next
  case False
  have "mset (SOME ys. mset ys = mset xs) = mset xs"
    by (rule someI [of "\<lambda>ys. mset ys = mset xs" xs]) simp
  then show ?thesis using False by (simp add: array_sort_def)
qed

lemma set_array_sort: "set (array_sort cmp xs) = set xs"
  using mset_array_sort [of cmp xs] by (rule mset_eq_setD)

lemma length_array_sort: "length (array_sort cmp xs) = length xs"
  using mset_array_sort [of cmp xs] by (rule mset_eq_length)

lemma array_sort_Nil: "array_sort cmp [] = []"
  using mset_array_sort [of cmp "[]"] by simp

lemma array_sort_single: "array_sort cmp [x] = [x]"
  using mset_array_sort [of cmp "[x]"] by simp

lemma compareFn_Finite:
  "distance a = Finite x \<Longrightarrow> distance b = Finite y \<Longrightarrow> compareFn a b = of_result (x - y)"
  by (simp add: compareFn_def number_minus_Finite)

lemma consistent_compareFn:
  assumes "\<forall>h\<in>set xs. \<exists>d. distance h = Finite d"
  shows "consistent compareFn xs"
  unfolding consistent_def list_all_iff
proof (intro ballI)
  fix a b c assume "a \<in> set xs" "b \<in> set xs" "c \<in> set xs"
  then obtain x y z where d: "distance a = Finite x" "distance b = Finite y" "distance c = Finite z"
    using assms by blast
  have ab: "compareFn a b = of_result (x - y)" and ba: "compareFn b a = of_result (y - x)"
    and bc: "compareFn b c = of_result (y - z)" and ac: "compareFn a c = of_result (x - z)"
    and aa: "compareFn a a = of_result (x - x)"
    using d by (simp_all add: compareFn_Finite)
  show "compareFn a b \<noteq> NaN \<and> is_zero (compareFn a a)
       \<and> (if is_zero (compareFn a b) then is_zero (compareFn b a) else True)
       \<and> (if is_zero (compareFn a b) \<and> is_zero (compareFn b c) then is_zero (compareFn a c) else True)
       \<and> (if is_negative (compareFn a b) \<and> is_negative (compareFn b c)
            then is_negative (compareFn a c) else True)
       \<and> (if is_positive (compareFn a b) \<and> is_positive (compareFn b c)
            then is_positive (compareFn a c) else True)"
    unfolding ab ba bc ac aa by (simp add: of_result_not_NaN sign_of_result)
qed

lemma array_sort_Finite:
  "\<forall>h\<in>set xs. \<exists>d. distance h = Finite d \<Longrightarrow>
     array_sort compareFn xs = foldr (insert_sorted compareFn) xs []"
  by (simp add: array_sort_def consistent_compareFn)

lemma set_insert_sorted: "set (insert_sorted cmp x xs) = insert x (set xs)"
  by (induction xs) auto

lemma compareFn_positive:
  "distance a = Finite x \<Longrightarrow> distance b = Finite y \<Longrightarrow>
     is_positive (compareFn a b) = (\<not> by_distance a b)"
  by (auto simp: compareFn_Finite sign_of_result by_distance_def)

lemma by_distance_trans:
  "by_distance a b \<Longrightarrow> by_distance b c \<Longrightarrow> by_distance a c"
  by (cases "distance a"; cases "distance b"; cases "distance c") (auto simp: by_distance_def)

lemma by_distance_total:
  "distance a = Finite x \<Longrightarrow> distance b = Finite y \<Longrightarrow> \<not> by_distance a b \<Longrightarrow> by_distance b a"
  by (auto simp: by_distance_def)

lemma sorted_insert_sorted:
  assumes "\<exists>d. distance x = Finite d" "\<forall>y\<in>set xs. \<exists>d. distance y = Finite d"
    "sorted_wrt by_distance xs"
  shows "sorted_wrt by_distance (insert_sorted compareFn x xs)"
  using assms
proof (induction xs)
  case Nil
  show ?case by simp
next
  case (Cons y ys)
  obtain dx dy where d: "distance x = Finite dx" "distance y = Finite dy"
    using Cons.prems by auto
  show ?case
  proof (cases "by_distance x y")
    case True
    then have "\<forall>z\<in>set ys. by_distance x z"
      using Cons.prems(3) by (auto intro: by_distance_trans)
    then show ?thesis using True Cons.prems(3) by (simp add: compareFn_positive [OF d])
  next
    case False
    then have "by_distance y x" using d by (simp add: by_distance_total)
    moreover have "sorted_wrt by_distance (insert_sorted compareFn x ys)"
      using Cons by simp
    ultimately show ?thesis using False Cons.prems(3)
      by (simp add: compareFn_positive [OF d] set_insert_sorted)
  qed
qed

lemma sorted_insertion:
  "\<forall>y\<in>set xs. \<exists>d. distance y = Finite d \<Longrightarrow>
     sorted_wrt by_distance (foldr (insert_sorted compareFn) xs [])"
proof (induction xs)
  case Nil
  show ?case by simp
next
  case (Cons x xs)
  have "set (foldr (insert_sorted compareFn) xs []) = set xs"
    using mset_insertion [of compareFn xs, THEN mset_eq_setD] .
  then have "sorted_wrt by_distance (insert_sorted compareFn x (foldr (insert_sorted compareFn) xs []))"
    using Cons by (intro sorted_insert_sorted) simp_all
  then show ?case by simp
qed

lemma sorted_array_sort:
  "\<forall>y\<in>set xs. \<exists>d. distance y = Finite d \<Longrightarrow> sorted_wrt by_distance (array_sort compareFn xs)"
  by (simp add: array_sort_Finite sorted_insertion)

lemma sorted_distances:
  "sorted_wrt by_distance hs \<Longrightarrow> \<forall>h\<in>set hs. \<exists>d. distance h = Finite d \<Longrightarrow>
     \<exists>ds. map distance hs = map Finite ds \<and> sorted ds"
proof (induction hs)
  case Nil
  show ?case by simp
next
  case (Cons h hs)
  obtain ds where ds: "map distance hs = map Finite ds" "sorted ds" using Cons by auto
  obtain d where d: "distance h = Finite d" using Cons.prems(2) by auto
  have "\<forall>x\<in>set ds. d \<le> x"
  proof
    fix x assume "x \<in> set ds"
    then have "Finite x \<in> set (map distance hs)" using ds(1) by simp
    then obtain k where "k \<in> set hs" "distance k = Finite x" by auto
    then show "d \<le> x" using Cons.prems(1) d by (auto simp: by_distance_def)
  qed
  then have "map distance (h # hs) = map Finite (d # ds) \<and> sorted (d # ds)"
    using ds d by simp
  then show ?case by blast
qed

section \<open>Records of the result\<close>

lemma toHospitalData_name:
  "toHospitalData u e = Inr h \<Longrightarrow> name h = tag e ''name''"
  by (cases "el_tags e") (auto simp: toHospitalData_def tag_def Let_def)

lemma toHospitalData_location:
  "toHospitalData u e = Inr h \<Longrightarrow> location h = \<lparr> loc_lat = element_lat e, loc_lng = element_lng e \<rparr>"
  by (cases "el_tags e") (auto simp: toHospitalData_def Let_def)

lemma toHospitalData_fields:
  assumes "toHospitalData u e = Inr h"
  shows "address h = or_default (tag e ''addr:street'') ''Address not available''
       \<and> phone h = or_default (tag e ''phone'') ''N/A''
       \<and> rating h = 4 \<and> specialties h = [''General Medicine''] \<and> openNow h"
  using assms by (cases "el_tags e") (auto simp: toHospitalData_def tag_def Let_def)

lemma toHospitalData_distance:
  "toHospitalData u e = Inr h \<Longrightarrow>
     distance h = parseFloat_toFixed1 (calculateDistance (Finite (lat u)) (Finite (lng u))
                    (toNumber (element_lat e)) (toNumber (element_lng e)))"
  by (cases "el_tags e") (auto simp: toHospitalData_def Let_def)


lemma toHospitalData_distance_range:
  assumes "toHospitalData u e = Inr h"
  shows "distance h = NaN \<or> (\<exists>r. distance h = Finite r \<and> 0 \<le> r)"
  using parseFloat_toFixed1_range [OF calculateDistance_range]
    toHospitalData_distance [OF assms] by metis

lemma nearbyHospitals_member:
  assumes "nearbyHospitals u es = Inr hs" "h \<in> set hs"
  shows "\<exists>e\<in>set es. hasName e \<and> toHospitalData u e = Inr h \<and> hasLocation h"
proof -
  have "h \<in> set (take 10 (array_sort compareFn (filter hasLocation
            (map (\<lambda>e. projr (toHospitalData u e)) (filter hasName es)))))"
    using assms by (simp add: nearbyHospitals_eq)
  then have "h \<in> set (array_sort compareFn (filter hasLocation
            (map (\<lambda>e. projr (toHospitalData u e)) (filter hasName es))))"
    by (rule in_set_takeD)
  then obtain e where e: "e \<in> set es" "hasName e" "h = projr (toHospitalData u e)" "hasLocation h"
    by (auto simp: set_array_sort)
  obtain h' where "toHospitalData u e = Inr h'" using toHospitalData_hasName [OF e(2)] by blast
  then have "toHospitalData u e = Inr h" using e(3) by simp
  then show ?thesis using e by blast
qed

lemma hasName_tag: "hasName e \<Longrightarrow> tag e ''name'' \<noteq> None"
  by (auto simp: hasName_def tag_def truthy_string_iff split: option.splits)

lemma filter_hasName_named:
  "filter hasName (filter (\<lambda>e. tag e ''name'' \<noteq> None) es) = filter hasName es"
  by (induction es) (auto simp: hasName_tag)

lemma falsy_coordinate_filtered:
  assumes "\<not> truthy_number (element_lat e) \<or> \<not> truthy_number (element_lng e)"
  shows "filter hasLocation (map (\<lambda>e. projr (toHospitalData u e)) (filter hasName [e])) = []"
proof (cases "hasName e")
  case True
  then obtain h where h: "toHospitalData u e = Inr h" using toHospitalData_hasName by blast
  have "\<not> hasLocation h"
    using assms toHospitalData_location [OF h] by (auto simp: hasLocation_def)
  then show ?thesis using True h by simp
next
  case False
  then show ?thesis by simp
qed

lemma falsy_coordinate_removed:
  assumes "\<not> truthy_number (element_lat e) \<or> \<not> truthy_number (element_lng e)"
  shows "nearbyHospitals u (es1 @ e # es2) = nearbyHospitals u (es1 @ es2)"
proof -
  have "es1 @ e # es2 = es1 @ [e] @ es2" by simp
  then show ?thesis
    using falsy_coordinate_filtered [OF assms, of u]
    by (simp only: nearbyHospitals_eq filter_append map_append append_Nil)
qed


lemma hospitals_useEffect_cases:
  "hospitals (useEffect geo fetch initial) = [] \<or>
   (\<exists>u es. nearbyHospitals u es = Inr (hospitals (useEffect geo fetch initial)))"
proof (cases geo)
  case (Position la lo)
  let ?u = "\<lparr> lat = la, lng = lo \<rparr>"
  show ?thesis
  proof (cases "try_block ?u (fetch (overpass_request ?u))")
    case (Inl ex)
    then have "hospitals (useEffect geo fetch initial) = []"
      using Position by (simp add: useEffect_def fetchNearbyHospitals_def initial_def Let_def)
    then show ?thesis by simp
  next
    case (Inr hs)
    then have h: "hospitals (useEffect geo fetch initial) = hs"
      using Position by (simp add: useEffect_def fetchNearbyHospitals_def initial_def Let_def)
    have "\<exists>es. nearbyHospitals ?u es = Inr hs"
      using Inr by (auto simp: try_block_def split: sum.splits option.splits)
    then show ?thesis using h by blast
  qed
qed (simp_all add: useEffect_def initial_def)

section \<open>The pipeline on the concrete inputs\<close>

declare nat_toString.simps [simp del]

lemma int_toString_digit:
  "int_toString 1 = ''1''" "int_toString 3 = ''3''" "int_toString 6 = ''6''"
  "int_toString 8 = ''8''" "int_toString 9 = ''9''"
  by (simp_all add: int_toString_def nat_toString.simps digit_def)

lemma number_NaN_absorbs:
  "number_plus a NaN = NaN" "number_plus NaN a = NaN"
  "number_times a NaN = NaN" "number_times NaN a = NaN"
  by (cases a; simp)+

lemma calculateDistance_overflow:
  assumes "\<not> \<bar>lat2 * pi\<bar> < overflow_bound"
  shows "calculateDistance lat1 lon1 (Finite lat2) lon2 = NaN"
proof -
  have "cosine (Finite lat2) = NaN" using assms by (simp add: cosine_Finite)
  then show ?thesis
    by (simp add: calculateDistance_unfold haversine_term_def number_NaN_absorbs
        distance_of_term_nonfinite)
qed

lemma calculateDistance_at_user:
  "calculateDistance (Finite 10) (Finite 20) (Finite 10) (Finite 20) = Finite 0"
  by (rule calculateDistance_same, rule moderate_no_overflow) simp

lemma atan2_sin_cos:
  assumes "0 \<le> x" "x < pi / 2"
  shows "atan2_real (sqrt (sin x * sin x)) (sqrt (1 - sin x * sin x)) = x"
proof -
  have s: "0 \<le> sin x" using assms by (intro sin_ge_zero) simp_all
  have c: "0 < cos x" using assms by (intro cos_gt_zero_pi) simp_all
  have "1 - sin x * sin x = cos x * cos x"
    using sin_cos_squared_add [of x] by (simp add: power2_eq_square algebra_simps)
  then have "sqrt (1 - sin x * sin x) = cos x" using c by simp
  moreover have "sqrt (sin x * sin x) = sin x" using s by simp
  moreover have "arctan (sin x / cos x) = x"
    using arctan_tan [of x] assms by (simp add: tan_def)
  ultimately show ?thesis using c by (simp add: atan2_real_def)
qed

lemma calculateDistance_near:
  "calculateDistance (Finite 10) (Finite 20) (Finite (10001 / 1000)) (Finite 20) =
     Finite (6371 * pi / 180000)"
proof -
  define x where "x = pi / 360000"
  have x: "0 \<le> x" "x < pi / 2" by (simp_all add: x_def)
  have a: "haversine_a 10 20 (10001 / 1000) 20 = sin x * sin x"
    by (simp add: haversine_a_def radians_def x_def)
  have n1: "\<bar>10 * pi\<bar> < overflow_bound" by (rule moderate_no_overflow) simp
  have n2: "\<bar>10001 / 1000 * pi\<bar> < overflow_bound" by (rule moderate_no_overflow) simp
  have n3: "\<bar>(10001 / 1000 - 10) * pi\<bar> < overflow_bound" by (rule moderate_no_overflow) simp
  have n4: "\<bar>(20 - 20) * pi\<bar> < overflow_bound" by (rule moderate_no_overflow) simp
  have "calculateDistance (Finite 10) (Finite 20) (Finite (10001 / 1000)) (Finite 20) =
      Finite (6371 * (2 * atan2_real (sqrt (sin x * sin x)) (sqrt (1 - sin x * sin x))))"
    using calculateDistance_Finite [OF n1 n2 n3 n4] by (simp only: a)
  also have "\<dots> = Finite (6371 * (2 * x))" by (simp only: atan2_sin_cos [OF x])
  also have "\<dots> = Finite (6371 * pi / 180000)" by (simp add: x_def)
  finally show ?thesis .
qed

lemma round_near: "parseFloat_toFixed1 (Finite (6371 * pi / 180000)) = Finite (1 / 10)"
proof -
  have lo: "0 \<le> 6371 * pi / 180000" by simp
  have hi: "6371 * pi / 180000 < 10 ^ 21" using pi_small by simp
  have "\<lfloor>10 * (6371 * pi / 180000) + 1 / 2\<rfloor> = 1"
    using pi_bounds by (intro floor_unique) simp_all
  then have "real_of_int \<lfloor>10 * (6371 * pi / 180000) + 1 / 2\<rfloor> / 10 = 1 / 10" by simp
  then show ?thesis using parseFloat_toFixed1_small [OF lo hi] by (simp only:)
qed

lemma toHospitalData_sample_node: "toHospitalData sample_user sample_node = Inr sample_hospital"
  by (simp add: toHospitalData_def sample_user_def sample_node_def sample_hospital_def
      element_lat_def element_lng_def calculateDistance_at_user or_default_def int_toString_digit)

lemma toHospitalData_sample_blank: "toHospitalData sample_user sample_blank = Inr sample_blank_hospital"
  by (simp add: toHospitalData_def sample_user_def sample_blank_def sample_blank_hospital_def
      element_lat_def element_lng_def calculateDistance_at_user or_default_def int_toString_digit)

lemma toHospitalData_sample_unnamed:
  "toHospitalData sample_user sample_unnamed = Inr sample_unnamed_record"
  by (simp add: toHospitalData_def sample_user_def sample_unnamed_def sample_unnamed_record_def
      element_lat_def element_lng_def calculateDistance_at_user or_default_def int_toString_digit)

lemma distance_near:
  "parseFloat_toFixed1 (calculateDistance (Finite 10) (Finite 20) (Finite (10001 / 1000)) (Finite 20)) =
     Finite (1 / 10)"
  by (simp only: calculateDistance_near round_near)

lemma toHospitalData_sample_near: "toHospitalData sample_user sample_near = Inr sample_near_record"
  by (simp add: toHospitalData_def sample_user_def sample_near_def sample_near_record_def
      element_lat_def element_lng_def distance_near or_default_def int_toString_digit
      del: parseFloat_toFixed1.simps)

lemma toHospitalData_sample_far: "toHospitalData sample_user sample_far = Inr sample_far_record"
proof -
  have "calculateDistance (Finite 10) (Finite 20) (Finite (10 ^ 308)) (Finite 20) = NaN"
    using huge_overflow by (intro calculateDistance_overflow) simp
  then show ?thesis
    by (simp add: toHospitalData_def sample_user_def sample_far_def sample_far_record_def
        element_lat_def element_lng_def or_default_def int_toString_digit)
qed

lemma sample_facts:
  "hasName sample_node" "hasName sample_blank" "hasName sample_near" "hasName sample_far"
  "\<not> hasName sample_untagged" "\<not> hasName sample_unnamed"
  "hasLocation sample_hospital" "hasLocation sample_blank_hospital"
  "hasLocation sample_near_record" "hasLocation sample_far_record"
  "distance sample_hospital = Finite 0" "distance sample_blank_hospital = Finite 0"
  "distance sample_near_record = Finite (1 / 10)" "distance sample_far_record = NaN"
  by (simp_all add: hasName_def hasLocation_def sample_node_def sample_blank_def sample_near_def
      sample_far_def sample_untagged_def sample_unnamed_def sample_hospital_def
      sample_blank_hospital_def sample_near_record_def sample_far_record_def)

lemma nearbyHospitals_sample_node: "nearbyHospitals sample_user [sample_node] = Inr [sample_hospital]"
  by (simp add: nearbyHospitals_def toHospitalData_sample_node sample_facts array_sort_single)

lemma nearbyHospitals_sample_three:
  "nearbyHospitals sample_user [sample_untagged, sample_node, sample_unnamed] = Inr [sample_hospital]"
  by (simp add: nearbyHospitals_def toHospitalData_sample_node sample_facts array_sort_single)

lemma nearbyHospitals_sample_blank:
  "nearbyHospitals sample_user [sample_blank] = Inr [sample_blank_hospital]"
  by (simp add: nearbyHospitals_def toHospitalData_sample_blank sample_facts array_sort_single)



lemma nearbyHospitals_sample_ordered:
  "nearbyHospitals sample_user [sample_near, sample_node] =
     Inr [sample_hospital, sample_near_record]"
proof -
  have "array_sort compareFn [sample_near_record, sample_hospital] =
      foldr (insert_sorted compareFn) [sample_near_record, sample_hospital] []"
  proof (rule array_sort_Finite)
    have "\<exists>d. distance sample_near_record = Finite d" "\<exists>d. distance sample_hospital = Finite d"
      using sample_facts by blast+
    then show "\<forall>h\<in>set [sample_near_record, sample_hospital]. \<exists>d. distance h = Finite d"
      by simp
  qed
  also have "\<dots> = [sample_hospital, sample_near_record]"
    by (simp add: compareFn_def sample_facts number_minus_Finite of_result_def)
  finally show ?thesis
    by (simp add: nearbyHospitals_def toHospitalData_sample_near toHospitalData_sample_node
        sample_facts)
qed

lemma two_permutations: "mset ys = {#a, b#} \<Longrightarrow> ys = [a, b] \<or> ys = [b, a]"
proof (cases ys)
  case Nil
  assume "mset ys = {#a, b#}"
  then show ?thesis using Nil by simp
next
  case (Cons y zs)
  assume m: "mset ys = {#a, b#}"
  then have len: "length ys = 2" using mset_eq_length [of ys "[a, b]"] by simp
  then obtain z where z: "zs = [z]" using Cons by (cases zs) auto
  have "{#y, z#} = {#a, b#}" using m Cons z by simp
  then have "(y = a \<and> z = b) \<or> (y = b \<and> z = a)" by (auto simp: add_eq_conv_ex)
  then show ?thesis using Cons z by auto
qed

lemma nearbyHospitals_sample_unordered:
  "nearbyHospitals sample_user [sample_far, sample_node] = Inr [sample_far_record, sample_hospital]
   \<or> nearbyHospitals sample_user [sample_far, sample_node] = Inr [sample_hospital, sample_far_record]"
proof -
  define ys where "ys = array_sort compareFn [sample_far_record, sample_hospital]"
  have "mset ys = {#sample_far_record, sample_hospital#}"
    using mset_array_sort [of compareFn "[sample_far_record, sample_hospital]"] by (simp add: ys_def)
  then have "ys = [sample_far_record, sample_hospital] \<or> ys = [sample_hospital, sample_far_record]"
    by (rule two_permutations)
  moreover have "nearbyHospitals sample_user [sample_far, sample_node] = Inr (take 10 ys)"
    by (simp add: nearbyHospitals_def toHospitalData_sample_far toHospitalData_sample_node
        sample_facts ys_def)
  ultimately show ?thesis by auto
qed

section \<open>Size and order of the result\<close>

text \<open>
  C1, as stated, fails where a retained record has the distance \<open>NaN\<close>: for the response
  made of a named node at latitude \<open>1e308\<close> and the named node at the user's position,
  both records are retained, the result holds them in one of the two orders, and with the
  distances \<open>NaN\<close> and \<open>0\<close> neither order is non-decreasing.
\<close>

theorem C1_NaN_distance_counterexample:
  "(nearbyHospitals sample_user [sample_far, sample_node] = Inr [sample_far_record, sample_hospital]
    \<or> nearbyHospitals sample_user [sample_far, sample_node] = Inr [sample_hospital, sample_far_record])
   \<and> map distance [sample_far_record, sample_hospital] = [NaN, Finite 0]
   \<and> \<not> sorted_wrt number_le [NaN, Finite 0]
   \<and> \<not> sorted_wrt number_le [Finite 0, NaN]"
proof -
  have "map distance [sample_far_record, sample_hospital] = [NaN, Finite 0]"
    by (simp add: sample_facts)
  moreover have "\<not> sorted_wrt number_le [NaN, Finite 0]" "\<not> sorted_wrt number_le [Finite 0, NaN]"
    by simp_all
  ultimately show ?thesis using nearbyHospitals_sample_unordered by blast
qed

text \<open>
  C1, amended. For every response and every user coordinate the result has at most 10
  records, and so has the hospitals list of the session after the startup effect; when no
  retained record (the record of a named element with truthy latitude and longitude) has
  the distance \<open>NaN\<close>, the distances of the result are numbers in non-decreasing order.
\<close>

theorem C1_at_most_ten_ascending:
  assumes "nearbyHospitals u es = Inr hs"
  shows "length hs \<le> 10
       \<and> length (hospitals (useEffect geo fetch initial)) \<le> 10
       \<and> ((\<forall>e\<in>set es. \<forall>h. hasName e \<and> toHospitalData u e = Inr h \<and> hasLocation h
                \<longrightarrow> distance h \<noteq> NaN)
            \<longrightarrow> (\<exists>ds. map distance hs = map Finite ds \<and> sorted ds))"
proof (intro conjI impI)
  let ?kept = "filter hasLocation (map (\<lambda>e. projr (toHospitalData u e)) (filter hasName es))"
  have hs: "hs = take 10 (array_sort compareFn ?kept)"
    using assms by (simp add: nearbyHospitals_eq)
  show "length hs \<le> 10" unfolding hs by simp
  show "length (hospitals (useEffect geo fetch initial)) \<le> 10"
    using hospitals_useEffect_cases [of geo fetch]
  proof
    assume "hospitals (useEffect geo fetch initial) = []"
    then show ?thesis by simp
  next
    assume "\<exists>u es. nearbyHospitals u es = Inr (hospitals (useEffect geo fetch initial))"
    then obtain u' es' where
      "nearbyHospitals u' es' = Inr (hospitals (useEffect geo fetch initial))" by blast
    then have "hospitals (useEffect geo fetch initial) =
        take 10 (array_sort compareFn (filter hasLocation
          (map (\<lambda>e. projr (toHospitalData u' e)) (filter hasName es'))))"
      by (simp add: nearbyHospitals_eq)
    then show ?thesis by simp
  qed
  assume numbers: "\<forall>e\<in>set es. \<forall>h. hasName e \<and> toHospitalData u e = Inr h \<and> hasLocation h
                \<longrightarrow> distance h \<noteq> NaN"
  have kept: "\<forall>h\<in>set ?kept. \<exists>d. distance h = Finite d"
  proof
    fix h assume "h \<in> set ?kept"
    then obtain e where e: "e \<in> set es" "hasName e" "h = projr (toHospitalData u e)" "hasLocation h"
      by auto
    obtain h' where "toHospitalData u e = Inr h'" using toHospitalData_hasName [OF e(2)] by blast
    then have t: "toHospitalData u e = Inr h" using e(3) by simp
    then have "distance h \<noteq> NaN" using numbers e by blast
    then show "\<exists>d. distance h = Finite d" using toHospitalData_distance_range [OF t] by blast
  qed
  then have "sorted_wrt by_distance (array_sort compareFn ?kept)" by (rule sorted_array_sort)
  then have s: "sorted_wrt by_distance hs" unfolding hs by (rule sorted_wrt_take)
  have "set hs \<subseteq> set ?kept" unfolding hs using set_take_subset [of 10] set_array_sort by fast
  then have "\<forall>h\<in>set hs. \<exists>d. distance h = Finite d" using kept by blast
  with s show "\<exists>ds. map distance hs = map Finite ds \<and> sorted ds" by (rule sorted_distances)
qed

text \<open>
  Witness for C1: the response lists a clinic 0.1 km away before the hospital at the
  user's position; the result lists the hospital first.
\<close>

theorem C1_at_most_ten_ascending_witness:
  "nearbyHospitals sample_user [sample_near, sample_node] = Inr [sample_hospital, sample_near_record]
   \<and> length [sample_hospital, sample_near_record] \<le> 10
   \<and> map distance [sample_hospital, sample_near_record] = [Finite 0, Finite (1 / 10)]
   \<and> (\<exists>ds. map distance [sample_hospital, sample_near_record] = map Finite ds \<and> sorted ds)"
proof -
  note c = C1_at_most_ten_ascending [OF nearbyHospitals_sample_ordered]
  have d: "map distance [sample_hospital, sample_near_record] = [Finite 0, Finite (1 / 10)]"
    by (simp add: sample_facts)
  have "\<forall>e\<in>set [sample_near, sample_node]. \<forall>h.
          hasName e \<and> toHospitalData sample_user e = Inr h \<and> hasLocation h \<longrightarrow> distance h \<noteq> NaN"
    by (auto simp: toHospitalData_sample_near toHospitalData_sample_node sample_facts)
  then have "\<exists>ds. map distance [sample_hospital, sample_near_record] = map Finite ds \<and> sorted ds"
    using c by blast
  then show ?thesis using c d nearbyHospitals_sample_ordered by blast
qed

section \<open>The great-circle distance\<close>

text \<open>
  C2, as stated, fails where the conversion to radians overflows: for the two identical
  coordinates \<open>(1e308, 0)\<close> the product \<open>1e308 * Math.PI\<close> is infinite, its cosine is
  \<open>NaN\<close> and so is the distance, which is then neither 0 nor a non-negative number.
\<close>

theorem C2_overflow_counterexample:
  "calculateDistance (Finite (10 ^ 308)) (Finite 0) (Finite (10 ^ 308)) (Finite 0) = NaN"
  using huge_overflow by (intro calculateDistance_overflow) simp

text \<open>
  C2, amended. \<open>calculateDistance\<close> is symmetric in its two coordinates; it returns 0
  for two identical coordinates whose latitude \<open>toRad\<close> converts to a finite number; and
  its result is never negative: it is \<open>NaN\<close> or a non-negative number.
\<close>

theorem C2_distance_properties:
  "calculateDistance lat1 lon1 lat2 lon2 = calculateDistance lat2 lon2 lat1 lon1
   \<and> ((\<exists>r. toRad (Finite la) = Finite r) \<longrightarrow>
        calculateDistance (Finite la) (Finite lo) (Finite la) (Finite lo) = Finite 0)
   \<and> (calculateDistance lat1 lon1 lat2 lon2 = NaN
        \<or> (\<exists>d. calculateDistance lat1 lon1 lat2 lon2 = Finite d \<and> 0 \<le> d))"
proof (intro conjI impI)
  show "calculateDistance lat1 lon1 lat2 lon2 = calculateDistance lat2 lon2 lat1 lon1"
    by (rule calculateDistance_sym)
  show "calculateDistance lat1 lon1 lat2 lon2 = NaN
        \<or> (\<exists>d. calculateDistance lat1 lon1 lat2 lon2 = Finite d \<and> 0 \<le> d)"
    using calculateDistance_range [of lat1 lon1 lat2 lon2] by blast
next
  assume "\<exists>r. toRad (Finite la) = Finite r"
  then have "\<bar>la * pi\<bar> < overflow_bound"
    by (auto simp: toRad_Finite split: if_splits)
  then show "calculateDistance (Finite la) (Finite lo) (Finite la) (Finite lo) = Finite 0"
    by (rule calculateDistance_same)
qed

text \<open>
  Witness for C2: from (10, 20) to (10.001, 20) and back the distance is
  \<open>6371 * pi / 180000\<close> km, about 0.111, and from (10, 20) to itself it is 0.
\<close>

theorem C2_distance_properties_witness:
  "calculateDistance (Finite 10) (Finite 20) (Finite (10001 / 1000)) (Finite 20) =
     Finite (6371 * pi / 180000)
   \<and> calculateDistance (Finite (10001 / 1000)) (Finite 20) (Finite 10) (Finite 20) =
     Finite (6371 * pi / 180000)
   \<and> 0 \<le> 6371 * pi / 180000
   \<and> toRad (Finite 10) = Finite (10 * pi / 180)
   \<and> calculateDistance (Finite 10) (Finite 20) (Finite 10) (Finite 20) = Finite 0"
proof -
  note c = C2_distance_properties
    [of "Finite 10" "Finite 20" "Finite (10001 / 1000)" "Finite 20" 10 20]
  have "\<bar>10 * pi\<bar> < overflow_bound" by (rule moderate_no_overflow) simp
  then have n: "toRad (Finite 10) = Finite (10 * pi / 180)"
    by (simp only: toRad_Finite radians_def if_True)
  have p: "0 \<le> 6371 * pi / 180000" by simp
  have z: "calculateDistance (Finite 10) (Finite 20) (Finite 10) (Finite 20) = Finite 0"
    using c n by blast
  have "calculateDistance (Finite (10001 / 1000)) (Finite 20) (Finite 10) (Finite 20) =
     Finite (6371 * pi / 180000)"
    using c calculateDistance_near by metis
  then show ?thesis using n p z calculateDistance_near by blast
qed

section \<open>Coordinates equal to zero\<close>

text \<open>
  C3. A named node with the direct coordinate (0, 20) and no center has a resolvable
  coordinate, yet the pipeline returns no record for it. A named element with the direct
  coordinate (0, 20) and the center (10, 30) gets the latitude of its center and the
  longitude of its direct point.
\<close>

theorem C3_zero_coordinate_dropped:
  "hasName sample_equator
   \<and> el_lat sample_equator = Some 0 \<and> el_lon sample_equator = Some 20
   \<and> nearbyHospitals sample_user [sample_equator] = Inr []
   \<and> hasName sample_mixed
   \<and> el_lat sample_mixed = Some 0 \<and> el_lon sample_mixed = Some 20
   \<and> el_center sample_mixed = Some \<lparr> center_lat = Some 10, center_lon = Some 30 \<rparr>
   \<and> element_lat sample_mixed = Some 10 \<and> element_lng sample_mixed = Some 20"
proof -
  have "\<not> truthy_number (element_lat sample_equator)"
    by (simp add: element_lat_def sample_equator_def)
  then have "nearbyHospitals sample_user ([] @ sample_equator # []) = nearbyHospitals sample_user ([] @ [])"
    by (intro falsy_coordinate_removed) simp
  then have "nearbyHospitals sample_user [sample_equator] = Inr []"
    by (simp add: nearbyHospitals_def array_sort_Nil)
  moreover have "hasName sample_equator" "hasName sample_mixed"
    by (simp_all add: hasName_def sample_equator_def sample_mixed_def)
  moreover have "el_lat sample_equator = Some 0" "el_lon sample_equator = Some 20"
    by (simp_all add: sample_equator_def)
  moreover have "el_lat sample_mixed = Some 0" "el_lon sample_mixed = Some 20"
    "el_center sample_mixed = Some \<lparr> center_lat = Some 10, center_lon = Some 30 \<rparr>"
    "element_lat sample_mixed = Some 10" "element_lng sample_mixed = Some 20"
    by (simp_all add: element_lat_def element_lng_def sample_mixed_def)
  ultimately show ?thesis by simp
qed

section \<open>Elements without a name\<close>

text \<open>
  C4. An element without a \<open>tags.name\<close> value is absent from the result: its record is
  not in the list, every record of the list is the record of an element that has the tag,
  and the list is the one the pipeline returns once these elements are removed from the
  response.
\<close>

theorem C4_unnamed_absent:
  assumes "nearbyHospitals u es = Inr hs"
  shows "(\<forall>e h. tag e ''name'' = None \<and> toHospitalData u e = Inr h \<longrightarrow> h \<notin> set hs)
       \<and> (\<forall>h\<in>set hs. \<exists>e\<in>set es. tag e ''name'' \<noteq> None \<and> toHospitalData u e = Inr h)
       \<and> nearbyHospitals u (filter (\<lambda>e. tag e ''name'' \<noteq> None) es) = Inr hs"
proof -
  have named: "\<forall>h\<in>set hs. \<exists>e\<in>set es. tag e ''name'' \<noteq> None \<and> toHospitalData u e = Inr h"
    using nearbyHospitals_member [OF assms] hasName_tag by blast
  have "\<forall>h\<in>set hs. name h \<noteq> None"
    using named toHospitalData_name by fastforce
  then have absent: "\<forall>e h. tag e ''name'' = None \<and> toHospitalData u e = Inr h \<longrightarrow> h \<notin> set hs"
    using toHospitalData_name by fastforce
  have "nearbyHospitals u (filter (\<lambda>e. tag e ''name'' \<noteq> None) es) = nearbyHospitals u es"
    by (simp only: nearbyHospitals_def filter_hasName_named)
  then show ?thesis using named absent assms by simp
qed

text \<open>
  Witness for C4: of a skeleton node, a named node and an unnamed node only the named one
  is in the result.
\<close>

theorem C4_unnamed_absent_witness:
  "nearbyHospitals sample_user [sample_untagged, sample_node, sample_unnamed] = Inr [sample_hospital]
   \<and> tag sample_unnamed ''name'' = None \<and> tag sample_untagged ''name'' = None
   \<and> toHospitalData sample_user sample_unnamed = Inr sample_unnamed_record
   \<and> sample_unnamed_record \<notin> set [sample_hospital]
   \<and> (\<exists>e\<in>set [sample_untagged, sample_node, sample_unnamed].
          tag e ''name'' \<noteq> None \<and> toHospitalData sample_user e = Inr sample_hospital)
   \<and> nearbyHospitals sample_user
        (filter (\<lambda>e. tag e ''name'' \<noteq> None) [sample_untagged, sample_node, sample_unnamed]) =
        Inr [sample_hospital]"
proof -
  note c = C4_unnamed_absent [OF nearbyHospitals_sample_three]
  have t1: "tag sample_unnamed ''name'' = None" by (simp add: tag_def sample_unnamed_def)
  have t2: "tag sample_untagged ''name'' = None" by (simp add: tag_def sample_untagged_def)
  have t3: "sample_unnamed_record \<notin> set [sample_hospital]"
    using c t1 toHospitalData_sample_unnamed by blast
  have t4: "\<exists>e\<in>set [sample_untagged, sample_node, sample_unnamed].
          tag e ''name'' \<noteq> None \<and> toHospitalData sample_user e = Inr sample_hospital"
    using c by simp
  have t5: "nearbyHospitals sample_user
        (filter (\<lambda>e. tag e ''name'' \<noteq> None) [sample_untagged, sample_node, sample_unnamed]) =
        Inr [sample_hospital]"
    using c by blast
  show ?thesis
    using nearbyHospitals_sample_three t1 t2 t3 t4 t5 toHospitalData_sample_unnamed by blast
qed

section \<open>The emergency flag\<close>

text \<open>
  C5. Every record of the result is the record of an element of the response, and its
  emergency flag is true exactly when the \<open>emergency\<close> tag of that element is the string
  \<open>yes\<close>; an absent tag and every other value give false.
\<close>

theorem C5_emergency_flag:
  assumes "nearbyHospitals u es = Inr hs"
  shows "\<forall>h\<in>set hs. \<exists>e\<in>set es. toHospitalData u e = Inr h \<and>
            (emergency h \<longleftrightarrow> tag e ''emergency'' = Some ''yes'')"
proof
  fix h assume "h \<in> set hs"
  then obtain e where e: "e \<in> set es" "toHospitalData u e = Inr h"
    using nearbyHospitals_member [OF assms] by blast
  have "emergency h \<longleftrightarrow> tag e ''emergency'' = Some ''yes''"
    using e(2) by (cases "el_tags e") (auto simp: toHospitalData_def tag_def Let_def)
  then show "\<exists>e\<in>set es. toHospitalData u e = Inr h \<and>
               (emergency h \<longleftrightarrow> tag e ''emergency'' = Some ''yes'')"
    using e by blast
qed

text \<open>Witness for C5: the named node is tagged \<open>emergency = yes\<close>.\<close>

theorem C5_emergency_flag_witness:
  "nearbyHospitals sample_user [sample_node] = Inr [sample_hospital]
   \<and> (\<exists>e\<in>set [sample_node]. toHospitalData sample_user e = Inr sample_hospital \<and>
            (emergency sample_hospital \<longleftrightarrow> tag e ''emergency'' = Some ''yes''))
   \<and> emergency sample_hospital \<and> tag sample_node ''emergency'' = Some ''yes''"
proof -
  note c = C5_emergency_flag [OF nearbyHospitals_sample_node]
  have t1: "emergency sample_hospital" by (simp add: sample_hospital_def)
  have t2: "tag sample_node ''emergency'' = Some ''yes''" by (simp add: tag_def sample_node_def)
  have t3: "\<exists>e\<in>set [sample_node]. toHospitalData sample_user e = Inr sample_hospital \<and>
            (emergency sample_hospital \<longleftrightarrow> tag e ''emergency'' = Some ''yes'')"
    using c by simp
  show ?thesis using nearbyHospitals_sample_node t1 t2 t3 by blast
qed

section \<open>The distance field\<close>




section \<open>Address, phone and the placeholders\<close>

text \<open>
  C7, as stated, fails where a tag is present and empty: the node has the street and the
  phone tags, both the empty string, and its record holds the two sentinel strings.
\<close>

theorem C7_blank_tag_counterexample:
  "tag sample_blank ''addr:street'' = Some '''' \<and> tag sample_blank ''phone'' = Some ''''
   \<and> nearbyHospitals sample_user [sample_blank] = Inr [sample_blank_hospital]
   \<and> address sample_blank_hospital = ''Address not available''
   \<and> phone sample_blank_hospital = ''N/A''"
proof -
  have "tag sample_blank ''addr:street'' = Some ''''" "tag sample_blank ''phone'' = Some ''''"
    by (simp_all add: tag_def sample_blank_def)
  moreover have "address sample_blank_hospital = ''Address not available''"
    "phone sample_blank_hospital = ''N/A''"
    by (simp_all add: sample_blank_hospital_def)
  ultimately show ?thesis using nearbyHospitals_sample_blank by simp
qed

text \<open>
  C7, amended. For every record of the result the address is the \<open>addr:street\<close> tag of
  its element when that tag is present and not empty, and the sentinel otherwise; the
  phone is the \<open>phone\<close> tag when present and not empty, and the sentinel otherwise;
  rating, specialties and open-now are 4, the one-element list and true.
\<close>

theorem C7_address_phone_placeholders:
  assumes "nearbyHospitals u es = Inr hs"
  shows "\<forall>h\<in>set hs. \<exists>e\<in>set es. toHospitalData u e = Inr h
           \<and> address h = (case tag e ''addr:street'' of
                            None \<Rightarrow> ''Address not available''
                          | Some s \<Rightarrow> if s = [] then ''Address not available'' else s)
           \<and> phone h = (case tag e ''phone'' of
                          None \<Rightarrow> ''N/A''
                        | Some s \<Rightarrow> if s = [] then ''N/A'' else s)
           \<and> rating h = 4 \<and> specialties h = [''General Medicine''] \<and> openNow h"
proof
  fix h assume "h \<in> set hs"
  then obtain e where e: "e \<in> set es" "toHospitalData u e = Inr h"
    using nearbyHospitals_member [OF assms] by blast
  show "\<exists>e\<in>set es. toHospitalData u e = Inr h
           \<and> address h = (case tag e ''addr:street'' of
                            None \<Rightarrow> ''Address not available''
                          | Some s \<Rightarrow> if s = [] then ''Address not available'' else s)
           \<and> phone h = (case tag e ''phone'' of
                          None \<Rightarrow> ''N/A''
                        | Some s \<Rightarrow> if s = [] then ''N/A'' else s)
           \<and> rating h = 4 \<and> specialties h = [''General Medicine''] \<and> openNow h"
    using e toHospitalData_fields [OF e(2)] unfolding or_default_def by blast
qed

text \<open>Witness for C7: the named node has a street and no phone.\<close>

theorem C7_address_phone_placeholders_witness:
  "nearbyHospitals sample_user [sample_node] = Inr [sample_hospital]
   \<and> tag sample_node ''addr:street'' = Some ''Main Street'' \<and> tag sample_node ''phone'' = None
   \<and> address sample_hospital = ''Main Street'' \<and> phone sample_hospital = ''N/A''
   \<and> (\<exists>e\<in>set [sample_node]. toHospitalData sample_user e = Inr sample_hospital
           \<and> address sample_hospital = (case tag e ''addr:street'' of
                            None \<Rightarrow> ''Address not available''
                          | Some s \<Rightarrow> if s = [] then ''Address not available'' else s)
           \<and> phone sample_hospital = (case tag e ''phone'' of
                          None \<Rightarrow> ''N/A''
                        | Some s \<Rightarrow> if s = [] then ''N/A'' else s)
           \<and> rating sample_hospital = 4
           \<and> specialties sample_hospital = [''General Medicine''] \<and> openNow sample_hospital)"
proof -
  have c: "\<exists>e\<in>set [sample_node]. toHospitalData sample_user e = Inr sample_hospital
           \<and> address sample_hospital = (case tag e ''addr:street'' of
                            None \<Rightarrow> ''Address not available''
                          | Some s \<Rightarrow> if s = [] then ''Address not available'' else s)
           \<and> phone sample_hospital = (case tag e ''phone'' of
                          None \<Rightarrow> ''N/A''
                        | Some s \<Rightarrow> if s = [] then ''N/A'' else s)
           \<and> rating sample_hospital = 4
           \<and> specialties sample_hospital = [''General Medicine''] \<and> openNow sample_hospital"
    using C7_address_phone_placeholders [OF nearbyHospitals_sample_node] by simp
  have t: "tag sample_node ''addr:street'' = Some ''Main Street''" "tag sample_node ''phone'' = None"
    by (simp_all add: tag_def sample_node_def)
  have a: "address sample_hospital = ''Main Street''" "phone sample_hospital = ''N/A''"
    by (simp_all add: sample_hospital_def)
  show ?thesis using c nearbyHospitals_sample_node t a by blast
qed

section \<open>Failure of the query\<close>

text \<open>
  C8, as stated, fails for a non-success response whose body is a well-formed result:
  the status is never read, the hospitals are shown and no error is set.
\<close>

theorem C8_error_status_counterexample:
  "ok sample_error_response = False
   \<and> hospitals (useEffect (Position 10 20) (\<lambda>req. Inr sample_error_response) initial) = [sample_hospital]
   \<and> error (useEffect (Position 10 20) (\<lambda>req. Inr sample_error_response) initial) = None
   \<and> render (useEffect (Position 10 20) (\<lambda>req. Inr sample_error_response) initial) =
       ResultsView [sample_hospital]"
proof -
  have u: "\<lparr> lat = 10, lng = 20 \<rparr> = sample_user" by (simp add: sample_user_def)
  have "try_block sample_user (Inr sample_error_response) = Inr [sample_hospital]"
    by (simp add: try_block_def sample_error_response_def nearbyHospitals_sample_node)
  then have "useEffect (Position 10 20) (\<lambda>req. Inr sample_error_response) initial =
      \<lparr> user_location = Some sample_user, hospitals = [sample_hospital], loading = False,
        error = None, requests = [overpass_request sample_user] \<rparr>"
    by (simp add: useEffect_def fetchNearbyHospitals_def initial_def Let_def u)
  then show ?thesis by (simp add: render_def sample_error_response_def)
qed

text \<open>
  C8, amended. When the request throws, or parsing the response body throws, or the
  parsed body has no elements, the session ends with the generic failure message as its
  error, an empty hospitals list and the error view: no partial result is shown.
\<close>

theorem C8_query_failure:
  "(case fetch (overpass_request \<lparr> lat = la, lng = lo \<rparr>) of
      Inl ex \<Rightarrow> True
    | Inr resp \<Rightarrow> (case json resp of Inl ex \<Rightarrow> True | Inr d \<Rightarrow> elements d = None))
   \<Longrightarrow>
     useEffect (Position la lo) fetch initial =
       \<lparr> user_location = Some \<lparr> lat = la, lng = lo \<rparr>, hospitals = [], loading = False,
         error = Some ''Failed to fetch nearby hospitals. Please try again later.'',
         requests = [overpass_request \<lparr> lat = la, lng = lo \<rparr>] \<rparr>
     \<and> render (useEffect (Position la lo) fetch initial) =
         ErrorView ''Failed to fetch nearby hospitals. Please try again later.''"
  by (auto simp: useEffect_def fetchNearbyHospitals_def initial_def Let_def try_block_def render_def
      split: sum.splits option.splits)

text \<open>
  Witness for C8: a rejected request, and a non-success response whose body is not JSON.
\<close>

theorem C8_query_failure_witness:
  "useEffect (Position 10 20) (\<lambda>req. Inl NetworkError) initial =
       \<lparr> user_location = Some \<lparr> lat = 10, lng = 20 \<rparr>, hospitals = [], loading = False,
         error = Some ''Failed to fetch nearby hospitals. Please try again later.'',
         requests = [overpass_request \<lparr> lat = 10, lng = 20 \<rparr>] \<rparr>
   \<and> render (useEffect (Position 10 20) (\<lambda>req. Inr \<lparr> ok = False, json = Inl SyntaxError \<rparr>) initial) =
         ErrorView ''Failed to fetch nearby hospitals. Please try again later.''"
proof -
  have a: "case (Inl NetworkError :: exn + response) of Inl ex \<Rightarrow> True
           | Inr resp \<Rightarrow> (case json resp of Inl ex \<Rightarrow> True | Inr d \<Rightarrow> elements d = None)"
    by simp
  have b: "case (Inr \<lparr> ok = False, json = Inl SyntaxError \<rparr> :: exn + response) of Inl ex \<Rightarrow> True
           | Inr resp \<Rightarrow> (case json resp of Inl ex \<Rightarrow> True | Inr d \<Rightarrow> elements d = None)"
    by simp
  note c = C8_query_failure [of "\<lambda>req. Inl NetworkError" 10 20, OF a]
  note d = C8_query_failure [of "\<lambda>req. Inr \<lparr> ok = False, json = Inl SyntaxError \<rparr>" 10 20, OF b]
  show ?thesis using c d by blast
qed

section \<open>Location failure\<close>

text \<open>
  C9. When the location capability is unavailable or reports a failure, the session ends
  in the error state with the fixed message of that case, no request has been issued,
  no location is set and the hospitals list is empty, whatever the network would answer.
\<close>

theorem C9_location_failure:
  "useEffect Unsupported fetch initial =
     \<lparr> user_location = None, hospitals = [], loading = False,
       error = Some ''Geolocation is not supported by your browser'', requests = [] \<rparr>
   \<and> render (useEffect Unsupported fetch initial) =
       ErrorView ''Geolocation is not supported by your browser''
   \<and> useEffect PositionError fetch initial =
     \<lparr> user_location = None, hospitals = [], loading = False,
       error = Some ''Please enable location services to find nearby hospitals'',
       requests = [] \<rparr>
   \<and> render (useEffect PositionError fetch initial) =
       ErrorView ''Please enable location services to find nearby hospitals''"
proof -
  have unsupported: "useEffect Unsupported fetch initial =
     \<lparr> user_location = None, hospitals = [], loading = False,
       error = Some ''Geolocation is not supported by your browser'', requests = [] \<rparr>"
    by (simp add: useEffect_def initial_def)
  have denied: "useEffect PositionError fetch initial =
     \<lparr> user_location = None, hospitals = [], loading = False,
       error = Some ''Please enable location services to find nearby hospitals'',
       requests = [] \<rparr>"
    by (simp add: useEffect_def initial_def)
  show ?thesis
    unfolding unsupported denied by (simp add: render_def)
qed

section \<open>Truthiness of coordinates\<close>



end
